theory Spec2Isabelle
  imports Main
begin

section \<open>Python values, exceptions and outcomes\<close>

text \<open>
  The two modules of the repository, \<^verbatim>\<open>clients/base.py\<close> (module-level decorators over
  one process-wide connection) and \<^verbatim>\<open>clients/blocking.py\<close> (the classes
  \<^verbatim>\<open>PublishMessage\<close> and \<^verbatim>\<open>ConsumeMessage\<close>, one connection per call, under a retry
  decorator), are embedded as functions over an explicit state of the outside world.

  An object that is not one of JSON's types (a pika channel, a method frame, message
  properties) is kept only as what \<^verbatim>\<open>str()\<close> prints for it.
\<close>

datatype pyobj = PyObj string

fun py_str :: "pyobj \<Rightarrow> string" where
  "py_str (PyObj s) = s"

text \<open>A float is kept as what \<^verbatim>\<open>repr()\<close> prints for it (\<^verbatim>\<open>1.5\<close>, \<^verbatim>\<open>-0.0\<close>, \<^verbatim>\<open>1e+308\<close>,
  \<^verbatim>\<open>inf\<close>, \<^verbatim>\<open>-inf\<close>): two floats other than NaN print the same exactly when they are the
  same float. NaN has a constructor of its own, and is never written \<open>Float ''nan''\<close>.\<close>

datatype pyfloat = Float string | NaN

text \<open>Python's \<^verbatim>\<open>==\<close> on two floats: NaN is equal to nothing, itself included, and the two
  zeros are equal.\<close>

fun float_eq :: "pyfloat \<Rightarrow> pyfloat \<Rightarrow> bool" where
  "float_eq (Float r) (Float r') =
     (r = r' \<or> (r = ''0.0'' \<and> r' = ''-0.0'') \<or> (r = ''-0.0'' \<and> r' = ''0.0''))"
| "float_eq NaN y = False"
| "float_eq x NaN = False"

text \<open>Dictionary keys: the key types \<^verbatim>\<open>json.dumps\<close> accepts, and any other hashable
  (\<open>KOther\<close>, a tuple for example).\<close>

datatype pykey = KStr string | KInt int | KFloat pyfloat | KBool bool | KNone | KOther

text \<open>A dictionary is the list of its items in insertion order. A string is a list of
  HOL's characters.\<close>

datatype pyval =
    PNone
  | PBool bool
  | PInt int
  | PFloat pyfloat
  | PStr string
  | PList "pyval list"
  | PTuple "pyval list"
  | PDict "(pykey \<times> pyval) list"
  | PObject pyobj

text \<open>
  The exceptions the code meets. \<open>AMQPConnectionError\<close> is
  \<^verbatim>\<open>pika.exceptions.AMQPConnectionError\<close>, which pika raises when a connection cannot be
  established; \<open>ConnectionClosedByBroker\<close> is one of its subclasses, raised when the broker
  closes a connection that was open. \<open>TypeError\<close> is what \<^verbatim>\<open>json.dumps\<close> raises on a value it
  cannot serialise, what a call with the wrong number of arguments raises, and what pika
  raises on a queue name that is not a string. \<open>ValueError\<close> stands for
  \<^verbatim>\<open>json.JSONDecodeError\<close> and \<^verbatim>\<open>UnicodeDecodeError\<close>, both subclasses of it, and is what the
  conversion between an integer and its decimal digits raises beyond the interpreter's
  limit. \<open>RecursionError\<close> is what \<^verbatim>\<open>json.dumps\<close> and \<^verbatim>\<open>json.loads\<close> raise on lists and
  dictionaries nested deeper than the interpreter allows. \<open>OtherError\<close> is any other
  exception, named by its class.
\<close>

datatype exn =
    AMQPConnectionError
  | ConnectionClosedByBroker
  | KeyboardInterrupt
  | TypeError
  | ValueError
  | RecursionError
  | OtherError string

text \<open>\<^verbatim>\<open>isinstance(e, pika.exceptions.AMQPConnectionError)\<close>: what
  \<^verbatim>\<open>except AMQPConnectionError\<close> catches.\<close>

fun is_connection_error :: "exn \<Rightarrow> bool" where
  "is_connection_error AMQPConnectionError = True"
| "is_connection_error ConnectionClosedByBroker = True"
| "is_connection_error _ = False"

text \<open>The errors of encoding and of decoding a message body.\<close>

fun is_serialization_error :: "exn \<Rightarrow> bool" where
  "is_serialization_error TypeError = True"
| "is_serialization_error ValueError = True"
| "is_serialization_error RecursionError = True"
| "is_serialization_error _ = False"

text \<open>A call returns a value, raises, or never returns (\<open>Blocked\<close>: the listening loop
  waiting for a message that does not come).\<close>

datatype 'a outcome = Returned 'a | Raised exn | Blocked

text \<open>Sequencing of two steps over a state: the second runs only when the first returns.\<close>

definition andthen ::
  "('s \<Rightarrow> 'a outcome \<times> 's) \<Rightarrow> ('a \<Rightarrow> 's \<Rightarrow> 'b outcome \<times> 's) \<Rightarrow> 's \<Rightarrow> 'b outcome \<times> 's" where
  "andthen m k s =
     (case m s of
        (Returned x, s') \<Rightarrow> k x s'
      | (Raised e, s') \<Rightarrow> (Raised e, s')
      | (Blocked, s') \<Rightarrow> (Blocked, s'))"

definition ret :: "'a \<Rightarrow> 's \<Rightarrow> 'a outcome \<times> 's" where
  "ret x s = (Returned x, s)"

section \<open>The JSON codec\<close>

text \<open>
  \<^verbatim>\<open>json.dumps\<close> and \<^verbatim>\<open>json.loads\<close> belong to Python's standard library. They are modelled
  by the conversion tables of the library's documentation, between Python values and JSON
  documents; a JSON text stands for the document it denotes, so layout and escapes are
  not modelled. A number of a document is an integer literal (\<open>JNum\<close>) or a literal that
  Python reads as a float (\<open>JFloat\<close>): one with a fraction or an exponent, or one of
  \<^verbatim>\<open>NaN\<close>, \<^verbatim>\<open>Infinity\<close> and \<^verbatim>\<open>-Infinity\<close>, which \<^verbatim>\<open>json.dumps\<close> writes and \<^verbatim>\<open>json.loads\<close> reads
  by default. \<^verbatim>\<open>json.dumps\<close> writes a float with \<^verbatim>\<open>repr()\<close>, and that literal reads back as
  the same float.

  Two limits of the interpreter show in both functions. CPython refuses, with ValueError,
  to convert between an integer and a decimal string of more than 4300 digits
  (\<^verbatim>\<open>sys.int_max_str_digits\<close>, since version 3.11 and the security releases of the versions
  before it). And both functions go one level deeper into the interpreter's recursion for
  every list or dictionary they enter, and raise RecursionError when no level is left: how
  many are left when the function is called, the first argument of \<open>json_dumps\<close> and of
  \<open>json_loads\<close>, depends on \<^verbatim>\<open>sys.getrecursionlimit()\<close> and on the depth of the stack at the
  call.
\<close>

datatype json =
    JNull
  | JBool bool
  | JNum int
  | JFloat pyfloat
  | JStr string
  | JArr "json list"
  | JObj "(string \<times> json) list"

function digits :: "nat \<Rightarrow> string" where
  "digits n =
     (if n < 10 then [''0123456789'' ! n] else digits (n div 10) @ [''0123456789'' ! (n mod 10)])"
  by pat_completeness auto
termination
  by (relation "measure (\<lambda>n. n)") auto

text \<open>\<^verbatim>\<open>str(i)\<close> of an integer.\<close>

definition str_int :: "int \<Rightarrow> string" where
  "str_int i = (if i < 0 then CHR ''-'' # digits (nat (- i)) else digits (nat i))"

text \<open>The limit on the digits of an integer, the sign not counted, in \<^verbatim>\<open>str(i)\<close> and in
  \<^verbatim>\<open>int(s)\<close>.\<close>

definition max_str_digits :: nat where
  "max_str_digits = 4300"

definition int_str_ok :: "int \<Rightarrow> bool" where
  "int_str_ok i = (length (digits (nat \<bar>i\<bar>)) \<le> max_str_digits)"

text \<open>How \<^verbatim>\<open>json.dumps\<close> writes a float.\<close>

fun float_str :: "pyfloat \<Rightarrow> string" where
  "float_str (Float r) =
     (if r = ''inf'' then ''Infinity'' else if r = ''-inf'' then ''-Infinity'' else r)"
| "float_str NaN = ''NaN''"

text \<open>The key of a JSON object member: \<^verbatim>\<open>json.dumps\<close> turns an integer, float, boolean or
  \<^verbatim>\<open>None\<close> key into a string and raises TypeError on any other key that is not a
  string.\<close>

fun key_text :: "pykey \<Rightarrow> exn + string" where
  "key_text (KStr s) = Inr s"
| "key_text (KInt i) = (if int_str_ok i then Inr (str_int i) else Inl ValueError)"
| "key_text (KFloat f) = Inr (float_str f)"
| "key_text (KBool b) = Inr (if b then ''true'' else ''false'')"
| "key_text KNone = Inr ''null''"
| "key_text KOther = Inl TypeError"

text \<open>\<^verbatim>\<open>json.dumps\<close> with \<open>r\<close> levels of nesting left: a list and a tuple become an array, a
  dictionary an object.\<close>

fun json_dumps :: "nat \<Rightarrow> pyval \<Rightarrow> exn + json"
  and dumps_list :: "nat \<Rightarrow> pyval list \<Rightarrow> exn + json list"
  and dumps_items :: "nat \<Rightarrow> (pykey \<times> pyval) list \<Rightarrow> exn + (string \<times> json) list" where
  "json_dumps r PNone = Inr JNull"
| "json_dumps r (PBool b) = Inr (JBool b)"
| "json_dumps r (PInt i) = (if int_str_ok i then Inr (JNum i) else Inl ValueError)"
| "json_dumps r (PFloat f) = Inr (JFloat f)"
| "json_dumps r (PStr s) = Inr (JStr s)"
| "json_dumps r (PList xs) =
     (if r = 0 then Inl RecursionError
      else case dumps_list (r - 1) xs of Inl e \<Rightarrow> Inl e | Inr js \<Rightarrow> Inr (JArr js))"
| "json_dumps r (PTuple xs) =
     (if r = 0 then Inl RecursionError
      else case dumps_list (r - 1) xs of Inl e \<Rightarrow> Inl e | Inr js \<Rightarrow> Inr (JArr js))"
| "json_dumps r (PDict kvs) =
     (if r = 0 then Inl RecursionError
      else case dumps_items (r - 1) kvs of Inl e \<Rightarrow> Inl e | Inr ms \<Rightarrow> Inr (JObj ms))"
| "json_dumps r (PObject ob) = Inl TypeError"
| "dumps_list r [] = Inr []"
| "dumps_list r (x # xs) =
     (case json_dumps r x of
        Inl e \<Rightarrow> Inl e
      | Inr j \<Rightarrow> (case dumps_list r xs of Inl e \<Rightarrow> Inl e | Inr js \<Rightarrow> Inr (j # js)))"
| "dumps_items r [] = Inr []"
| "dumps_items r (kv # kvs) =
     (case key_text (fst kv) of
        Inl e \<Rightarrow> Inl e
      | Inr s \<Rightarrow>
          (case json_dumps r (snd kv) of
             Inl e \<Rightarrow> Inl e
           | Inr j \<Rightarrow> (case dumps_items r kvs of Inl e \<Rightarrow> Inl e | Inr ms \<Rightarrow> Inr ((s, j) # ms))))"

text \<open>\<^verbatim>\<open>d[k] = v\<close> on a dictionary: a key already there keeps its place and takes the new
  value.\<close>

fun dict_set :: "(pykey \<times> pyval) list \<Rightarrow> pykey \<Rightarrow> pyval \<Rightarrow> (pykey \<times> pyval) list" where
  "dict_set [] k v = [(k, v)]"
| "dict_set (kv # d) k v = (if fst kv = k then (k, v) # d else kv # dict_set d k v)"

text \<open>\<^verbatim>\<open>dict(pairs)\<close>: the pairs are stored one after the other.\<close>

fun dict_of :: "(pykey \<times> pyval) list \<Rightarrow> (pykey \<times> pyval) list \<Rightarrow> (pykey \<times> pyval) list" where
  "dict_of d [] = d"
| "dict_of d (kv # kvs) = dict_of (dict_set d (fst kv) (snd kv)) kvs"

text \<open>\<^verbatim>\<open>json.loads\<close> on a JSON text, with \<open>r\<close> levels of nesting left: an array becomes a
  list, an object a dictionary with string keys.\<close>

fun json_loads :: "nat \<Rightarrow> json \<Rightarrow> exn + pyval"
  and loads_list :: "nat \<Rightarrow> json list \<Rightarrow> exn + pyval list"
  and loads_items :: "nat \<Rightarrow> (string \<times> json) list \<Rightarrow> exn + (pykey \<times> pyval) list" where
  "json_loads r JNull = Inr PNone"
| "json_loads r (JBool b) = Inr (PBool b)"
| "json_loads r (JNum i) = (if int_str_ok i then Inr (PInt i) else Inl ValueError)"
| "json_loads r (JFloat f) = Inr (PFloat f)"
| "json_loads r (JStr s) = Inr (PStr s)"
| "json_loads r (JArr js) =
     (if r = 0 then Inl RecursionError
      else case loads_list (r - 1) js of Inl e \<Rightarrow> Inl e | Inr xs \<Rightarrow> Inr (PList xs))"
| "json_loads r (JObj ms) =
     (if r = 0 then Inl RecursionError
      else case loads_items (r - 1) ms of
             Inl e \<Rightarrow> Inl e
           | Inr kvs \<Rightarrow> Inr (PDict (dict_of [] kvs)))"
| "loads_list r [] = Inr []"
| "loads_list r (j # js) =
     (case json_loads r j of
        Inl e \<Rightarrow> Inl e
      | Inr x \<Rightarrow> (case loads_list r js of Inl e \<Rightarrow> Inl e | Inr xs \<Rightarrow> Inr (x # xs)))"
| "loads_items r [] = Inr []"
| "loads_items r (m # ms) =
     (case json_loads r (snd m) of
        Inl e \<Rightarrow> Inl e
      | Inr x \<Rightarrow>
          (case loads_items r ms of
             Inl e \<Rightarrow> Inl e
           | Inr kvs \<Rightarrow> Inr ((KStr (fst m), x) # kvs)))"

text \<open>The values that JSON has a type of its own for: no tuple, no foreign object,
  dictionaries with string keys (pairwise different, as in every dictionary).\<close>

fun json_plain :: "pyval \<Rightarrow> bool"
  and plains :: "pyval list \<Rightarrow> bool"
  and plain_items :: "(pykey \<times> pyval) list \<Rightarrow> bool" where
  "json_plain PNone = True"
| "json_plain (PBool b) = True"
| "json_plain (PInt i) = True"
| "json_plain (PFloat f) = True"
| "json_plain (PStr s) = True"
| "json_plain (PList xs) = plains xs"
| "json_plain (PTuple xs) = False"
| "json_plain (PDict kvs) = (plain_items kvs \<and> distinct (map fst kvs))"
| "json_plain (PObject ob) = False"
| "plains [] = True"
| "plains (x # xs) = (json_plain x \<and> plains xs)"
| "plain_items [] = True"
| "plain_items (kv # kvs) =
     ((case fst kv of KStr s \<Rightarrow> True | _ \<Rightarrow> False) \<and> json_plain (snd kv) \<and> plain_items kvs)"

text \<open>No NaN anywhere in the value.\<close>

fun nan_free :: "pyval \<Rightarrow> bool"
  and nan_free_list :: "pyval list \<Rightarrow> bool"
  and nan_free_items :: "(pykey \<times> pyval) list \<Rightarrow> bool" where
  "nan_free PNone = True"
| "nan_free (PBool b) = True"
| "nan_free (PInt i) = True"
| "nan_free (PFloat f) = (f \<noteq> NaN)"
| "nan_free (PStr s) = True"
| "nan_free (PList xs) = nan_free_list xs"
| "nan_free (PTuple xs) = nan_free_list xs"
| "nan_free (PDict kvs) = nan_free_items kvs"
| "nan_free (PObject ob) = True"
| "nan_free_list [] = True"
| "nan_free_list (x # xs) = (nan_free x \<and> nan_free_list xs)"
| "nan_free_items [] = True"
| "nan_free_items (kv # kvs) =
     (fst kv \<noteq> KFloat NaN \<and> nan_free (snd kv) \<and> nan_free_items kvs)"

text \<open>The values that are equal to themselves and have a JSON type of their own: built
  from \<^verbatim>\<open>None\<close>, booleans, integers, floats other than NaN, strings, lists, and dictionaries
  with string keys.\<close>

definition json_native :: "pyval \<Rightarrow> bool" where
  "json_native v = (json_plain v \<and> nan_free v)"

section \<open>The broker as the code sees it\<close>

text \<open>
  pika is the transport: the model keeps what the code asks of it (the \<open>trace\<close>) and what
  it answers. The answers come from the outside world: whether the next connection
  attempt succeeds (\<open>reachable\<close>), what happens next while a consumer listens
  (\<open>signals\<close>), which messages wait in each queue for \<^verbatim>\<open>basic_get\<close> (\<open>waiting\<close>). Once a
  connection is open, declarations and publishing succeed.

  The \<^verbatim>\<open>queue\<close> argument of a call is a string in \<^verbatim>\<open>blocking.py\<close>; in \<^verbatim>\<open>base.py\<close> it can also
  be a list of strings, since \<^verbatim>\<open>publish_queues: Union[str, List[str]]\<close> is passed on as it
  is.
\<close>

datatype qarg = QStr string | QList "string list"

text \<open>A message body on the wire: the UTF-8 bytes of a JSON text; the bytes of a JSON
  text in another form that \<^verbatim>\<open>json.loads\<close> detects when it is given bytes (UTF-16, UTF-32,
  or UTF-8 after a byte order mark); the empty byte string; any other bytes (not empty, not
  a JSON text).\<close>

datatype bytes = JsonText json | JsonTextOther json | EmptyBytes | OtherBytes

fun nonempty :: "bytes \<Rightarrow> bool" where
  "nonempty EmptyBytes = False"
| "nonempty _ = True"

text \<open>\<^verbatim>\<open>json.loads(body.decode('utf-8'))\<close> in \<^verbatim>\<open>blocking.py\<close>: bytes that are not the UTF-8
  of a JSON text raise \<^verbatim>\<open>UnicodeDecodeError\<close> or \<^verbatim>\<open>json.JSONDecodeError\<close>.\<close>

fun loads_utf8 :: "nat \<Rightarrow> bytes \<Rightarrow> exn + pyval" where
  "loads_utf8 r (JsonText j) = json_loads r j"
| "loads_utf8 r (JsonTextOther j) = Inl ValueError"
| "loads_utf8 r EmptyBytes = Inl ValueError"
| "loads_utf8 r OtherBytes = Inl ValueError"

text \<open>\<^verbatim>\<open>json.loads(body)\<close> in \<^verbatim>\<open>base.py\<close>: given bytes, \<^verbatim>\<open>json.loads\<close> finds the encoding
  itself.\<close>

fun loads_bytes :: "nat \<Rightarrow> bytes \<Rightarrow> exn + pyval" where
  "loads_bytes r (JsonText j) = json_loads r j"
| "loads_bytes r (JsonTextOther j) = json_loads r j"
| "loads_bytes r EmptyBytes = Inl ValueError"
| "loads_bytes r OtherBytes = Inl ValueError"

text \<open>What the code does that can be seen from outside, in order: the calls to pika, the
  calls of the user's function (\<open>CallWrapped\<close> by a publisher, \<open>CallConsumer\<close> by the handler
  of \<^verbatim>\<open>ConsumeMessage\<close>, with the decoded body) and the calls of \<^verbatim>\<open>json.dumps\<close>.\<close>

datatype event =
    Connect bool
  | ExchangeDeclare string string
  | QueueDeclare string
  | QueueBind string string
  | BasicPublish string string bytes
  | BasicConsume string
  | StartConsuming
  | StopConsuming
  | BasicGet string
  | CallWrapped
  | CallConsumer pyval
  | JsonDumps

text \<open>The arguments pika gives the callback of \<^verbatim>\<open>basic_consume\<close>.\<close>

record delivery =
  d_channel :: pyobj
  d_method :: pyobj
  d_properties :: pyobj
  d_body :: bytes

text \<open>What \<^verbatim>\<open>start_consuming\<close> meets next: a message, or an exception raised in it (the
  broker closing the connection, the operator's Ctrl-C, a lost connection).\<close>

datatype signal = Deliver delivery | Throw exn

record world =
  trace :: "event list"
  reachable :: "nat \<Rightarrow> bool"
  attempts :: nat
  signals :: "signal list"
  waiting :: "string \<Rightarrow> (pyobj \<times> pyobj \<times> bytes) list"
  connection :: "bool option"
  room :: nat

text \<open>\<open>attempts\<close> counts the connection attempts made so far, and \<open>reachable w n\<close> tells
  whether attempt number \<open>n\<close> (from 0) finds the broker. \<open>connection\<close> is the module variable
  \<^verbatim>\<open>_CONNECTION\<close> of \<^verbatim>\<open>base.py\<close>: \<open>None\<close> before the first connection, then whether
  \<^verbatim>\<open>is_open\<close> holds. \<open>room\<close> is the number of levels of lists and dictionaries that
  \<^verbatim>\<open>json.dumps\<close> and \<^verbatim>\<open>json.loads\<close> can enter in this process before RecursionError; the
  code does not change it.\<close>

definition emit :: "event \<Rightarrow> world \<Rightarrow> world" where
  "emit e w = w\<lparr>trace := trace w @ [e]\<rparr>"

text \<open>\<^verbatim>\<open>pika.BlockingConnection(...)\<close> followed by \<^verbatim>\<open>connection.channel()\<close>.\<close>

definition connect :: "world \<Rightarrow> unit outcome \<times> world" where
  "connect w =
     (if reachable w (attempts w)
      then (Returned (), emit (Connect True) (w\<lparr>attempts := Suc (attempts w)\<rparr>))
      else (Raised AMQPConnectionError, emit (Connect False) (w\<lparr>attempts := Suc (attempts w)\<rparr>)))"

definition exchange_declare :: "string \<Rightarrow> string \<Rightarrow> world \<Rightarrow> pyval outcome \<times> world" where
  "exchange_declare ex ty w = (Returned PNone, emit (ExchangeDeclare ex ty) w)"

text \<open>\<^verbatim>\<open>queue_declare\<close> returns the method frame of the broker's \<^verbatim>\<open>Queue.DeclareOk\<close>, an
  object of class \<^verbatim>\<open>pika.frame.Method\<close>. pika refuses a queue name that is not a string.\<close>

definition declare_ok :: pyval where
  "declare_ok = PObject (PyObj ''<METHOD(Queue.DeclareOk)>'')"

definition queue_declare :: "qarg \<Rightarrow> world \<Rightarrow> pyval outcome \<times> world" where
  "queue_declare q w =
     (case q of
        QStr name \<Rightarrow> (Returned declare_ok, emit (QueueDeclare name) w)
      | QList names \<Rightarrow> (Raised TypeError, w))"

definition queue_bind :: "string \<Rightarrow> string \<Rightarrow> world \<Rightarrow> pyval outcome \<times> world" where
  "queue_bind ex q w = (Returned PNone, emit (QueueBind ex q) w)"

definition basic_publish :: "string \<Rightarrow> qarg \<Rightarrow> bytes \<Rightarrow> world \<Rightarrow> pyval outcome \<times> world" where
  "basic_publish ex routing_key body w =
     (case routing_key of
        QStr name \<Rightarrow> (Returned PNone, emit (BasicPublish ex name body) w)
      | QList names \<Rightarrow> (Raised TypeError, w))"

definition basic_consume :: "string \<Rightarrow> world \<Rightarrow> pyval outcome \<times> world" where
  "basic_consume q w = (Returned PNone, emit (BasicConsume q) w)"

text \<open>The loop of \<^verbatim>\<open>start_consuming\<close>: each message goes to the callback; what the callback
  raises leaves the loop, as does what the transport raises. When nothing more happens the
  call stays blocked.\<close>

fun consuming ::
  "(delivery \<Rightarrow> world \<Rightarrow> pyval outcome \<times> world) \<Rightarrow> signal list \<Rightarrow> world \<Rightarrow> pyval outcome \<times> world" where
  "consuming handler [] w = (Blocked, w)"
| "consuming handler (Throw e # rest) w = (Raised e, w\<lparr>signals := rest\<rparr>)"
| "consuming handler (Deliver d # rest) w =
     (case handler d (w\<lparr>signals := rest\<rparr>) of
        (Returned x, w') \<Rightarrow> consuming handler rest w'
      | (Raised e, w') \<Rightarrow> (Raised e, w')
      | (Blocked, w') \<Rightarrow> (Blocked, w'))"

definition start_consuming ::
  "(delivery \<Rightarrow> world \<Rightarrow> pyval outcome \<times> world) \<Rightarrow> world \<Rightarrow> pyval outcome \<times> world" where
  "start_consuming handler w = consuming handler (signals w) (emit StartConsuming w)"

definition stop_consuming :: "world \<Rightarrow> pyval outcome \<times> world" where
  "stop_consuming w = (Returned PNone, emit StopConsuming w)"

text \<open>\<^verbatim>\<open>basic_get(queue, auto_ack=True)\<close>: the first waiting message, taken off the queue, or
  \<^verbatim>\<open>(None, None, None)\<close>.\<close>

definition basic_get ::
  "string \<Rightarrow> world \<Rightarrow> (pyobj option \<times> pyobj option \<times> bytes option) outcome \<times> world" where
  "basic_get q w =
     (case waiting w q of
        [] \<Rightarrow> (Returned (None, None, None), emit (BasicGet q) w)
      | m # rest \<Rightarrow>
          (Returned (Some (fst m), Some (fst (snd m)), Some (snd (snd m))),
           emit (BasicGet q) (w\<lparr>waiting := (waiting w)(q := rest)\<rparr>)))"

text \<open>\<^verbatim>\<open>json.dumps(result)\<close>, and pika's encoding of the text as bytes: the text is ASCII
  (\<^verbatim>\<open>ensure_ascii\<close> is on by default), so its bytes are UTF-8.\<close>

definition dumps :: "pyval \<Rightarrow> world \<Rightarrow> bytes outcome \<times> world" where
  "dumps v w =
     (case json_dumps (room w) v of
        Inl e \<Rightarrow> (Raised e, emit JsonDumps w)
      | Inr j \<Rightarrow> (Returned (JsonText j), emit JsonDumps w))"

text \<open>The two decodings as steps: \<^verbatim>\<open>json.loads(body.decode('utf-8'))\<close> and
  \<^verbatim>\<open>json.loads(body)\<close>.\<close>

definition decode_utf8 :: "bytes \<Rightarrow> world \<Rightarrow> pyval outcome \<times> world" where
  "decode_utf8 body w =
     (case loads_utf8 (room w) body of Inl e \<Rightarrow> (Raised e, w) | Inr v \<Rightarrow> (Returned v, w))"

definition decode_bytes :: "bytes \<Rightarrow> world \<Rightarrow> pyval outcome \<times> world" where
  "decode_bytes body w =
     (case loads_bytes (room w) body of Inl e \<Rightarrow> (Raised e, w) | Inr v \<Rightarrow> (Returned v, w))"

text \<open>A user function is a function of its arguments that returns a value, raises or
  does not return; each of its calls is recorded.\<close>

definition call_wrapped :: "('a \<Rightarrow> pyval outcome) \<Rightarrow> 'a \<Rightarrow> world \<Rightarrow> pyval outcome \<times> world" where
  "call_wrapped func args w = (func args, emit CallWrapped w)"

definition call_consumer :: "(pyval \<Rightarrow> pyval outcome) \<Rightarrow> pyval \<Rightarrow> world \<Rightarrow> pyval outcome \<times> world" where
  "call_consumer func v w = (func v, emit (CallConsumer v) w)"

section \<open>The retry decorator\<close>

text \<open>
  Modelled from the spec: the decorator \<^verbatim>\<open>retry\<close> of the package of that name, which
  \<^verbatim>\<open>blocking.py\<close> imports and applies as
  \<^verbatim>\<open>@retry(pika.exceptions.AMQPConnectionError, tries=5, delay=5, jitter=(1, 3))\<close>; its code
  is not under src/. The spec (4.2): the whole operation is retried up to a fixed maximum
  of 5 attempts on a connection error, the last attempt's connection error is raised again
  to the caller, and no other error is retried. Which errors are retried is the decorator's
  first argument in \<^verbatim>\<open>blocking.py\<close>, the class \<^verbatim>\<open>AMQPConnectionError\<close>: an exception is caught
  when it is an instance of that class, so of a subclass as well (\<open>is_connection_error\<close>).
  The waiting between two attempts is time passing only and leaves no mark on the state.

  \<open>retry_left n\<close> runs the operation with \<open>n\<close> more attempts allowed after this one.
\<close>

fun retry_left :: "nat \<Rightarrow> ('s \<Rightarrow> 'a outcome \<times> 's) \<Rightarrow> 's \<Rightarrow> 'a outcome \<times> 's" where
  "retry_left 0 operation s = operation s"
| "retry_left (Suc n) operation s =
     (case operation s of
        (Raised e, s') \<Rightarrow>
          if is_connection_error e then retry_left n operation s' else (Raised e, s')
      | (Returned x, s') \<Rightarrow> (Returned x, s')
      | (Blocked, s') \<Rightarrow> (Blocked, s'))"

definition max_attempts :: nat where
  "max_attempts = 5"

definition retry :: "('s \<Rightarrow> 'a outcome \<times> 's) \<Rightarrow> 's \<Rightarrow> 'a outcome \<times> 's" where
  "retry operation = retry_left (max_attempts - 1) operation"

text \<open>Counting the invocations of an operation, as a test double would: the counter is
  the first component of the state.\<close>

definition counting :: "('s \<Rightarrow> 'a outcome \<times> 's) \<Rightarrow> nat \<times> 's \<Rightarrow> 'a outcome \<times> nat \<times> 's" where
  "counting operation cs =
     (case operation (snd cs) of (r, s') \<Rightarrow> (r, Suc (fst cs), s'))"

text \<open>\<open>conn_failures k operation s = Some s'\<close>: invoked \<open>k\<close> times in a row from \<open>s\<close>, the
  operation raises a connection error each time and leaves \<open>s'\<close>.\<close>

fun conn_failures :: "nat \<Rightarrow> ('s \<Rightarrow> 'a outcome \<times> 's) \<Rightarrow> 's \<Rightarrow> 's option" where
  "conn_failures 0 operation s = Some s"
| "conn_failures (Suc k) operation s =
     (case operation s of
        (Raised e, s') \<Rightarrow> if is_connection_error e then conn_failures k operation s' else None
      | (Returned x, s') \<Rightarrow> None
      | (Blocked, s') \<Rightarrow> None)"

section \<open>clients/blocking.py\<close>

text \<open>\<^verbatim>\<open>_create_connection_and_channel\<close>: a new connection and its channel for every call.\<close>

definition create_connection_and_channel :: "world \<Rightarrow> unit outcome \<times> world" where
  "create_connection_and_channel = connect"

text \<open>\<^verbatim>\<open>send_log\<close>: the dictionary that goes to the logging queue.\<close>

definition send_log :: "pyobj \<Rightarrow> pyobj \<Rightarrow> pyobj \<Rightarrow> pyval \<Rightarrow> pyval" where
  "send_log channel meth properties body =
     PDict [(KStr ''channel'', PStr (py_str channel)),
            (KStr ''method'', PStr (py_str meth)),
            (KStr ''properties'', PStr (py_str properties)),
            (KStr ''body'', body)]"

record publisher =
  p_queue :: string
  p_exchange :: string
  p_exchange_type :: string

text \<open>\<^verbatim>\<open>PublishMessage(queue)\<close> with the defaults of \<^verbatim>\<open>__init__\<close>.\<close>

definition PublishMessage :: "string \<Rightarrow> publisher" where
  "PublishMessage q = \<lparr>p_queue = q, p_exchange = [], p_exchange_type = ''fanout''\<rparr>"

text \<open>
  The body of \<^verbatim>\<open>wrapper\<close> in \<^verbatim>\<open>PublishMessage.__call__\<close>, one attempt. With an exchange,
  the assignment \<^verbatim>\<open>result = channel.queue_declare(queue=self._queue)\<close> rebinds \<^verbatim>\<open>result\<close>,
  which held the value of the user's function; \<^verbatim>\<open>result.method.queue\<close> is the declared
  queue's name.
\<close>

definition publish_attempt ::
  "publisher \<Rightarrow> ('a \<Rightarrow> pyval outcome) \<Rightarrow> 'a \<Rightarrow> world \<Rightarrow> pyval outcome \<times> world" where
  "publish_attempt pub func args =
     andthen (call_wrapped func args) (\<lambda>result.
     andthen create_connection_and_channel (\<lambda>u.
     andthen
       (if p_exchange pub \<noteq> [] then
          andthen (exchange_declare (p_exchange pub) (p_exchange_type pub)) (\<lambda>u.
          andthen (queue_declare (QStr (p_queue pub))) (\<lambda>result.
          andthen (queue_bind (p_exchange pub) (p_queue pub)) (\<lambda>u.
          ret result)))
        else
          andthen (queue_declare (QStr (p_queue pub))) (\<lambda>u.
          ret result)) (\<lambda>result.
     andthen (dumps result) (\<lambda>body.
     basic_publish (p_exchange pub) (QStr (p_queue pub)) body))))"

text \<open>\<^verbatim>\<open>wrapper\<close> as decorated: \<^verbatim>\<open>PublishMessage(...)(func)(*args)\<close>.\<close>

definition publish_wrapper ::
  "publisher \<Rightarrow> ('a \<Rightarrow> pyval outcome) \<Rightarrow> 'a \<Rightarrow> world \<Rightarrow> pyval outcome \<times> world" where
  "publish_wrapper pub func args = retry (publish_attempt pub func args)"

record consumer =
  c_queue :: string
  c_exchange :: string
  c_exchange_type :: string
  c_logging :: bool
  c_logging_queue :: string

text \<open>\<^verbatim>\<open>ConsumeMessage(queue)\<close> with the defaults of \<^verbatim>\<open>__init__\<close>.\<close>

definition ConsumeMessage :: "string \<Rightarrow> consumer" where
  "ConsumeMessage q =
     \<lparr>c_queue = q, c_exchange = [], c_exchange_type = [], c_logging = True,
      c_logging_queue = ''logging''\<rparr>"

text \<open>\<^verbatim>\<open>message_handler\<close> of \<^verbatim>\<open>ConsumeMessage.__call__\<close>; \<^verbatim>\<open>log_publisher\<close> is
  \<^verbatim>\<open>PublishMessage(queue=self._logging_queue)\<close>.\<close>

definition message_handler ::
  "consumer \<Rightarrow> (pyval \<Rightarrow> pyval outcome) \<Rightarrow> delivery \<Rightarrow> world \<Rightarrow> pyval outcome \<times> world" where
  "message_handler cons func d =
     andthen (decode_utf8 (d_body d)) (\<lambda>decoded_body.
     andthen
       (if c_logging cons then
          publish_wrapper (PublishMessage (c_logging_queue cons))
            (\<lambda>(channel, meth, properties, body). Returned (send_log channel meth properties body))
            (d_channel d, d_method d, d_properties d, decoded_body)
        else ret PNone) (\<lambda>u.
     andthen (call_consumer func decoded_body) (\<lambda>u.
     ret PNone)))"

text \<open>\<^verbatim>\<open>prepare_channel\<close> of \<^verbatim>\<open>ConsumeMessage.__call__\<close>, one attempt: first the lines up to
  \<^verbatim>\<open>basic_consume\<close>, then the \<^verbatim>\<open>try\<close> statement around \<^verbatim>\<open>start_consuming\<close>.\<close>

definition consume_setup :: "consumer \<Rightarrow> world \<Rightarrow> pyval outcome \<times> world" where
  "consume_setup cons =
     andthen create_connection_and_channel (\<lambda>u.
     andthen
       (if c_exchange cons \<noteq> [] then
          andthen (exchange_declare (c_exchange cons) (c_exchange_type cons)) (\<lambda>u.
          andthen (queue_declare (QStr (c_queue cons))) (\<lambda>result.
          queue_bind (c_exchange cons) (c_queue cons)))
        else queue_declare (QStr (c_queue cons))) (\<lambda>u.
     basic_consume (c_queue cons)))"

definition consume_listen ::
  "consumer \<Rightarrow> (pyval \<Rightarrow> pyval outcome) \<Rightarrow> world \<Rightarrow> pyval outcome \<times> world" where
  "consume_listen cons func w =
     (case start_consuming (message_handler cons func) w of
        (Raised e, w') \<Rightarrow>
          if e = ConnectionClosedByBroker then (Returned PNone, w')
          else if e = KeyboardInterrupt then stop_consuming w'
          else (Raised e, w')
      | (Returned x, w') \<Rightarrow> (Returned PNone, w')
      | (Blocked, w') \<Rightarrow> (Blocked, w'))"

definition consume_attempt ::
  "consumer \<Rightarrow> (pyval \<Rightarrow> pyval outcome) \<Rightarrow> world \<Rightarrow> pyval outcome \<times> world" where
  "consume_attempt cons func = andthen (consume_setup cons) (\<lambda>u. consume_listen cons func)"

text \<open>\<^verbatim>\<open>prepare_channel\<close> as decorated: \<^verbatim>\<open>ConsumeMessage(...)(func)()\<close>.\<close>

definition prepare_channel ::
  "consumer \<Rightarrow> (pyval \<Rightarrow> pyval outcome) \<Rightarrow> world \<Rightarrow> pyval outcome \<times> world" where
  "prepare_channel cons func = retry (consume_attempt cons func)"

section \<open>clients/base.py\<close>

text \<open>\<^verbatim>\<open>_create_global_connection\<close> and \<^verbatim>\<open>_check_connection\<close>, on the module's one
  connection.\<close>

definition create_global_connection :: "world \<Rightarrow> pyval outcome \<times> world" where
  "create_global_connection =
     andthen connect (\<lambda>u w. (Returned PNone, w\<lparr>connection := Some True\<rparr>))"

definition check_connection :: "world \<Rightarrow> pyval outcome \<times> world" where
  "check_connection =
     andthen (\<lambda>w. if connection w = None then create_global_connection w else ret PNone w) (\<lambda>u.
     (\<lambda>w. if connection w = Some False then create_global_connection w else ret PNone w))"

text \<open>\<^verbatim>\<open>prepare_channel\<close> of \<^verbatim>\<open>publish_message\<close>: \<^verbatim>\<open>publish_message(queue, exchange)(func)(*args)\<close>.\<close>

definition publish_message ::
  "qarg \<Rightarrow> string \<Rightarrow> ('a \<Rightarrow> pyval outcome) \<Rightarrow> 'a \<Rightarrow> world \<Rightarrow> pyval outcome \<times> world" where
  "publish_message queue exchange func args =
     andthen (call_wrapped func args) (\<lambda>result.
     andthen check_connection (\<lambda>u.
     andthen (queue_declare queue) (\<lambda>u.
     andthen (dumps result) (\<lambda>body.
     basic_publish exchange queue body))))"

record consume_config =
  cm_consume_queue :: string
  cm_publish_queues :: "qarg option"
  cm_exchange :: string
  cm_production_ready :: bool

text \<open>\<^verbatim>\<open>if publish_queues:\<close> holds for a string or a list that is not empty.\<close>

fun truthy :: "qarg option \<Rightarrow> bool" where
  "truthy None = False"
| "truthy (Some (QStr name)) = (name \<noteq> [])"
| "truthy (Some (QList names)) = (names \<noteq> [])"

text \<open>\<^verbatim>\<open>message_handler\<close> of \<^verbatim>\<open>consume_message\<close>. Its \<^verbatim>\<open>send_log\<close> is defined and never
  called; \<^verbatim>\<open>channel\<close>, \<^verbatim>\<open>method\<close> and \<^verbatim>\<open>properties\<close> are not used otherwise.\<close>

definition consume_message_handler ::
  "consume_config \<Rightarrow> (pyval \<Rightarrow> pyval outcome) \<Rightarrow> pyobj option \<Rightarrow> pyobj option \<Rightarrow> pyobj option \<Rightarrow>
     bytes \<Rightarrow> world \<Rightarrow> pyval outcome \<times> world" where
  "consume_message_handler cfg func channel meth properties body =
     (case cm_publish_queues cfg of
        None \<Rightarrow> ret PNone
      | Some queues \<Rightarrow>
          if truthy (Some queues) then
            andthen (decode_bytes body) (\<lambda>message.
            andthen (publish_message queues (cm_exchange cfg) func message) (\<lambda>u.
            ret PNone))
          else ret PNone)"

text \<open>
  \<^verbatim>\<open>prepare_channel\<close> of \<^verbatim>\<open>consume_message\<close>: \<^verbatim>\<open>consume_message(...)(func)(*args)\<close>. The
  function is declared without parameters, so a call with an argument raises TypeError
  before its body runs. In the one-shot branch \<^verbatim>\<open>str(method)\<close> and \<^verbatim>\<open>str(properties)\<close> are
  computed and not used, and a second \<^verbatim>\<open>send_log\<close> is defined and never called.
\<close>

definition consume_message ::
  "consume_config \<Rightarrow> (pyval \<Rightarrow> pyval outcome) \<Rightarrow> pyval list \<Rightarrow> world \<Rightarrow> pyval outcome \<times> world" where
  "consume_message cfg func args =
     (if args \<noteq> [] then (\<lambda>w. (Raised TypeError, w))
      else
        andthen check_connection (\<lambda>u.
        andthen (queue_declare (QStr (cm_consume_queue cfg))) (\<lambda>u.
        if cm_production_ready cfg then
          andthen (basic_consume (cm_consume_queue cfg)) (\<lambda>u.
          (\<lambda>w. case start_consuming
                   (\<lambda>d. consume_message_handler cfg func (Some (d_channel d)) (Some (d_method d))
                          (Some (d_properties d)) (d_body d)) w of
                  (Raised e, w') \<Rightarrow>
                    if e = KeyboardInterrupt then stop_consuming w' else (Raised e, w')
                | (Returned x, w') \<Rightarrow> (Returned PNone, w')
                | (Blocked, w') \<Rightarrow> (Blocked, w')))
        else
          andthen (basic_get (cm_consume_queue cfg)) (\<lambda>got.
          (case snd (snd got) of
             None \<Rightarrow> ret PNone
           | Some body \<Rightarrow>
               if nonempty body then
                 andthen (consume_message_handler cfg func None None None body) (\<lambda>u.
                 ret PNone)
               else ret PNone)))))"

text \<open>\<^verbatim>\<open>wrapper\<close> of \<^verbatim>\<open>message_pipeline\<close>:
  \<^verbatim>\<open>message_pipeline(consume_queue, publish_queue, exchange, production_ready)(func)(message_dict)\<close>.\<close>

definition message_pipeline ::
  "string \<Rightarrow> string \<Rightarrow> string \<Rightarrow> bool \<Rightarrow> (pyval \<Rightarrow> pyval outcome) \<Rightarrow> pyval \<Rightarrow> world \<Rightarrow>
     pyval outcome \<times> world" where
  "message_pipeline consume_queue publish_queue exchange production_ready func message_dict =
     consume_message
       \<lparr>cm_consume_queue = consume_queue, cm_publish_queues = Some (QStr publish_queue),
        cm_exchange = exchange, cm_production_ready = production_ready\<rparr>
       func [message_dict]"

section \<open>Concrete inputs\<close>

text \<open>A broker that is out of reach for the first \<open>k\<close> connection attempts and reachable
  from then on.\<close>

definition up_from :: "nat \<Rightarrow> nat \<Rightarrow> bool" where
  "up_from k n = (k \<le> n)"

text \<open>A world in which nothing has happened yet: the broker is reachable, no queue holds a
  message, nothing comes while listening; the interpreter has room for 900 levels of
  nesting, as it has under the default recursion limit of 1000 with some of the stack in
  use.\<close>

definition world0 :: world where
  "world0 =
     \<lparr>trace = [], reachable = up_from 0, attempts = 0, signals = [], waiting = (\<lambda>q. []),
      connection = None, room = 900\<rparr>"

text \<open>User functions: one that returns a given value whatever it is called with, one that
  raises.\<close>

definition returning :: "pyval \<Rightarrow> 'a \<Rightarrow> pyval outcome" where
  "returning v args = Returned v"

definition raising :: "exn \<Rightarrow> 'a \<Rightarrow> pyval outcome" where
  "raising e args = Raised e"

text \<open>A delivery with a given body.\<close>

definition delivery_of :: "bytes \<Rightarrow> delivery" where
  "delivery_of body =
     \<lparr>d_channel = PyObj ''<BlockingChannel>'', d_method = PyObj ''<Basic.Deliver>'',
      d_properties = PyObj ''<BasicProperties>'', d_body = body\<rparr>"

text \<open>The same world with one message waiting in a queue.\<close>

definition one_waiting :: "string \<Rightarrow> bytes \<Rightarrow> world" where
  "one_waiting q body =
     world0\<lparr>waiting :=
       (waiting world0)(q := [(PyObj ''<Basic.GetOk>'', PyObj ''<BasicProperties>'', body)])\<rparr>"

text \<open>\<^verbatim>\<open>consume_message(consume_queue, publish_queues, production_ready=False)\<close>.\<close>

definition one_shot :: "string \<Rightarrow> qarg option \<Rightarrow> consume_config" where
  "one_shot q queues =
     \<lparr>cm_consume_queue = q, cm_publish_queues = queues, cm_exchange = [],
      cm_production_ready = False\<rparr>"

text \<open>\<open>n\<close> lists inside one another around \<^verbatim>\<open>None\<close>, and the JSON text of that value.\<close>

fun nested_py :: "nat \<Rightarrow> pyval" where
  "nested_py 0 = PNone"
| "nested_py (Suc n) = PList [nested_py n]"

fun nested_json :: "nat \<Rightarrow> json" where
  "nested_json 0 = JNull"
| "nested_json (Suc n) = JArr [nested_json n]"

section \<open>The codec: decoding what was encoded\<close>

lemma dict_set_fresh: "k \<notin> fst ` set d \<Longrightarrow> dict_set d k v = d @ [(k, v)]"
  by (induction d) auto

lemma dict_of_distinct: "distinct (map fst (d @ kvs)) \<Longrightarrow> dict_of d kvs = d @ kvs"
proof (induction kvs arbitrary: d)
  case Nil
  then show ?case by simp
next
  case (Cons kv kvs)
  have fresh: "fst kv \<notin> fst ` set d" using Cons.prems by auto
  have "distinct (map fst ((d @ [kv]) @ kvs))" using Cons.prems by auto
  then have "dict_of (d @ [kv]) kvs = (d @ [kv]) @ kvs" by (rule Cons.IH)
  then show ?case using fresh by (simp add: dict_set_fresh)
qed

text \<open>What \<^verbatim>\<open>json.dumps\<close> wrote of a plain value, \<^verbatim>\<open>json.loads\<close> reads back as that value,
  given at least as many levels of nesting.\<close>

lemma loads_dumps:
  "json_plain v \<Longrightarrow> json_dumps r v = Inr j \<Longrightarrow> r \<le> r' \<Longrightarrow> json_loads r' j = Inr v"
  "plains xs \<Longrightarrow> dumps_list r xs = Inr js \<Longrightarrow> r \<le> r' \<Longrightarrow> loads_list r' js = Inr xs"
  "plain_items kvs \<Longrightarrow> dumps_items r kvs = Inr ms \<Longrightarrow> r \<le> r' \<Longrightarrow> loads_items r' ms = Inr kvs"
proof (induction r v and r xs and r kvs arbitrary: j r' and js r' and ms r'
    rule: json_dumps_dumps_list_dumps_items.induct)
  case (6 r xs)
  then show ?case by (auto split: if_splits sum.splits)
next
  case (8 r kvs)
  from 8(2,3) obtain ms where ms: "r \<noteq> 0" "dumps_items (r - 1) kvs = Inr ms" "j = JObj ms"
    by (auto split: if_splits sum.splits)
  from 8(2) have pl: "plain_items kvs" "distinct (map fst kvs)" by auto
  have "loads_items (r' - 1) ms = Inr kvs"
    using 8(1) [OF ms(1) pl(1) ms(2), of "r' - 1"] 8(4) by simp
  moreover have "dict_of [] kvs = kvs" using pl(2) dict_of_distinct [of "[]" kvs] by simp
  ultimately show ?case using ms 8(4) by simp
next
  case (11 r x xs)
  then show ?case by (auto split: sum.splits)
next
  case (13 r kv kvs)
  then show ?case by (cases kv; cases "fst kv") (auto split: sum.splits)
qed (auto split: if_splits)

text \<open>The JSON text of a value does not depend on the room there was to write it.\<close>

lemma dumps_same:
  "json_dumps r v = Inr j \<Longrightarrow> json_dumps r' v = Inr j' \<Longrightarrow> j' = j"
  "dumps_list r xs = Inr js \<Longrightarrow> dumps_list r' xs = Inr js' \<Longrightarrow> js' = js"
  "dumps_items r kvs = Inr ms \<Longrightarrow> dumps_items r' kvs = Inr ms' \<Longrightarrow> ms' = ms"
proof (induction r v and r xs and r kvs arbitrary: j j' r' and js js' r' and ms ms' r'
    rule: json_dumps_dumps_list_dumps_items.induct)
  case (6 r xs)
  from 6(2) obtain js where a: "r \<noteq> 0" "dumps_list (r - 1) xs = Inr js" "j = JArr js"
    by (auto split: if_splits sum.splits)
  from 6(3) obtain js' where b: "dumps_list (r' - 1) xs = Inr js'" "j' = JArr js'"
    by (auto split: if_splits sum.splits)
  from 6(1) [OF a(1,2) b(1)] a(3) b(2) show ?case by simp
next
  case (7 r xs)
  from 7(2) obtain js where a: "r \<noteq> 0" "dumps_list (r - 1) xs = Inr js" "j = JArr js"
    by (auto split: if_splits sum.splits)
  from 7(3) obtain js' where b: "dumps_list (r' - 1) xs = Inr js'" "j' = JArr js'"
    by (auto split: if_splits sum.splits)
  from 7(1) [OF a(1,2) b(1)] a(3) b(2) show ?case by simp
next
  case (8 r kvs)
  from 8(2) obtain ms where a: "r \<noteq> 0" "dumps_items (r - 1) kvs = Inr ms" "j = JObj ms"
    by (auto split: if_splits sum.splits)
  from 8(3) obtain ms' where b: "dumps_items (r' - 1) kvs = Inr ms'" "j' = JObj ms'"
    by (auto split: if_splits sum.splits)
  from 8(1) [OF a(1,2) b(1)] a(3) b(2) show ?case by simp
next
  case (11 r x xs)
  from 11(3) obtain j0 js0 where a: "json_dumps r x = Inr j0" "dumps_list r xs = Inr js0"
    "js = j0 # js0" by (auto split: sum.splits)
  from 11(4) obtain j1 js1 where b: "json_dumps r' x = Inr j1" "dumps_list r' xs = Inr js1"
    "js' = j1 # js1" by (auto split: sum.splits)
  from 11(1) [OF a(1) b(1)] 11(2) [OF a(1,2) b(2)] a(3) b(3) show ?case by simp
next
  case (13 r kv kvs)
  from 13(3) obtain s j0 ms0 where a: "key_text (fst kv) = Inr s" "json_dumps r (snd kv) = Inr j0"
    "dumps_items r kvs = Inr ms0" "ms = (s, j0) # ms0" by (auto split: sum.splits)
  from 13(4) a(1) obtain j1 ms1 where b: "json_dumps r' (snd kv) = Inr j1"
    "dumps_items r' kvs = Inr ms1" "ms' = (s, j1) # ms1" by (auto split: sum.splits)
  from 13(1) [OF a(1,2) b(1)] 13(2) [OF a(1,2,3) b(2)] a(4) b(3) show ?case by simp
qed (auto split: if_splits)

lemma map_fst_dict_set:
  "map fst (dict_set d k v) = (if k \<in> fst ` set d then map fst d else map fst d @ [k])"
  by (induction d) auto

lemma distinct_dict_set: "distinct (map fst d) \<Longrightarrow> distinct (map fst (dict_set d k v))"
  by (simp add: map_fst_dict_set)

lemma distinct_dict_of: "distinct (map fst d) \<Longrightarrow> distinct (map fst (dict_of d kvs))"
  by (induction kvs arbitrary: d) (auto simp: distinct_dict_set)

lemma plain_dict_set:
  "plain_items d \<Longrightarrow> json_plain v \<Longrightarrow> plain_items (dict_set d (KStr s) v)"
  by (induction d) auto

lemma plain_dict_of:
  "plain_items d \<Longrightarrow> plain_items kvs \<Longrightarrow> plain_items (dict_of d kvs)"
proof (induction kvs arbitrary: d)
  case Nil
  then show ?case by simp
next
  case (Cons kv kvs)
  then show ?case by (cases kv; cases "fst kv") (auto simp: plain_dict_set)
qed

text \<open>What \<^verbatim>\<open>json.loads\<close> returns is a plain value.\<close>

lemma plain_loads:
  "json_loads r j = Inr v \<Longrightarrow> json_plain v"
  "loads_list r js = Inr xs \<Longrightarrow> plains xs"
  "loads_items r ms = Inr kvs \<Longrightarrow> plain_items kvs"
proof (induction r j and r js and r ms arbitrary: v and xs and kvs
    rule: json_loads_loads_list_loads_items.induct)
  case (7 r ms)
  then show ?case
    by (auto split: if_splits sum.splits simp: plain_dict_of distinct_dict_of)
qed (auto split: if_splits sum.splits)

text \<open>What \<^verbatim>\<open>json.dumps\<close> raises (TypeError, ValueError, RecursionError) is no connection
  error.\<close>

lemma json_dumps_error:
  "json_dumps r v = Inl e \<Longrightarrow> \<not> is_connection_error e"
  "dumps_list r xs = Inl e \<Longrightarrow> \<not> is_connection_error e"
  "dumps_items r kvs = Inl e \<Longrightarrow> \<not> is_connection_error e"
proof (induction r v and r xs and r kvs rule: json_dumps_dumps_list_dumps_items.induct)
  case (13 r kv kvs)
  then show ?case by (cases "fst kv") (auto split: sum.splits if_splits)
qed (auto split: sum.splits if_splits)

lemma int_str_ok_small [simp]: "\<bar>i\<bar> < 10 \<Longrightarrow> int_str_ok i"
  by (simp add: int_str_ok_def max_str_digits_def)

lemma str_int_1: "str_int 1 = ''1''"
  by (simp add: str_int_def)

lemma loads_nested: "n \<le> r \<Longrightarrow> json_loads r (nested_json n) = Inr (nested_py n)"
  by (induction n arbitrary: r) auto

lemma dumps_nested: "n \<le> r \<Longrightarrow> json_dumps r (nested_py n) = Inr (nested_json n)"
  by (induction n arbitrary: r) auto

lemma loads_nested_deep: "r < n \<Longrightarrow> json_loads r (nested_json n) = Inl RecursionError"
  by (induction n arbitrary: r) auto

lemma dumps_nested_deep: "r < n \<Longrightarrow> json_dumps r (nested_py n) = Inl RecursionError"
  by (induction n arbitrary: r) auto

section \<open>The retry decorator: how often the operation runs\<close>

lemma counting_apply:
  "counting operation (c, s) = (case operation s of (r, s') \<Rightarrow> (r, Suc c, s'))"
  by (simp add: counting_def)

lemma retry_left_counting:
  "conn_failures k operation s = Some sk \<Longrightarrow> k \<le> n \<Longrightarrow> operation sk = (r, s') \<Longrightarrow>
   k = n \<or> (\<forall>e. r = Raised e \<longrightarrow> \<not> is_connection_error e) \<Longrightarrow>
   retry_left n (counting operation) (c, s) = (r, c + k + 1, s')"
proof (induction k arbitrary: n s c)
  case 0
  then show ?case
    by (cases n; cases r) (auto simp: counting_apply)
next
  case (Suc k)
  from Suc.prems(2) obtain m where n: "n = Suc m" by (cases n) auto
  from Suc.prems(1) obtain e s1 where
    step: "operation s = (Raised e, s1)" "is_connection_error e" "conn_failures k operation s1 = Some sk"
    by (auto split: prod.splits outcome.splits if_splits)
  have "retry_left m (counting operation) (Suc c, s1) = (r, Suc c + k + 1, s')"
    using Suc.IH [OF step(3) _ Suc.prems(3), of m "Suc c"] Suc.prems(2,4) n by auto
  then show ?case using step n by (simp add: counting_apply)
qed

lemma retry_left_final:
  "operation s = (r, s') \<Longrightarrow> (\<forall>e. r = Raised e \<longrightarrow> \<not> is_connection_error e) \<Longrightarrow>
   retry_left n operation s = (r, s')"
  by (cases n; cases r) auto

section \<open>PublishMessage\<close>

lemma publish_attempt_fail:
  "func args = Returned v \<Longrightarrow> \<not> reachable w (attempts w) \<Longrightarrow>
   publish_attempt pub func args w =
     (Raised AMQPConnectionError,
      w\<lparr>attempts := Suc (attempts w), trace := trace w @ [CallWrapped, Connect False]\<rparr>)"
  by (simp add: publish_attempt_def andthen_def call_wrapped_def
      create_connection_and_channel_def connect_def emit_def)

lemma publish_attempt_ok:
  "func args = Returned v \<Longrightarrow> reachable w (attempts w) \<Longrightarrow> p_exchange pub = [] \<Longrightarrow>
   publish_attempt pub func args w =
     (case json_dumps (room w) v of
        Inl e \<Rightarrow>
          (Raised e,
           w\<lparr>attempts := Suc (attempts w),
             trace := trace w @ [CallWrapped, Connect True, QueueDeclare (p_queue pub), JsonDumps]\<rparr>)
      | Inr j \<Rightarrow>
          (Returned PNone,
           w\<lparr>attempts := Suc (attempts w),
             trace := trace w @ [CallWrapped, Connect True, QueueDeclare (p_queue pub), JsonDumps,
               BasicPublish [] (p_queue pub) (JsonText j)]\<rparr>))"
  by (simp add: publish_attempt_def andthen_def call_wrapped_def ret_def dumps_def
      create_connection_and_channel_def connect_def emit_def queue_declare_def basic_publish_def
      split: sum.splits)

lemma publish_attempt_exchange:
  "func args = Returned v \<Longrightarrow> reachable w (attempts w) \<Longrightarrow> p_exchange pub \<noteq> [] \<Longrightarrow>
   publish_attempt pub func args w =
     (Raised TypeError,
      w\<lparr>attempts := Suc (attempts w),
        trace := trace w @ [CallWrapped, Connect True,
          ExchangeDeclare (p_exchange pub) (p_exchange_type pub), QueueDeclare (p_queue pub),
          QueueBind (p_exchange pub) (p_queue pub), JsonDumps]\<rparr>)"
  by (simp add: publish_attempt_def andthen_def call_wrapped_def ret_def dumps_def
      create_connection_and_channel_def connect_def emit_def queue_declare_def basic_publish_def
      exchange_declare_def queue_bind_def declare_ok_def)

text \<open>While the broker is out of reach, each attempt of the publisher calls the function
  and fails to connect.\<close>

lemma retry_left_publish:
  "\<forall>i<k. \<not> reachable w (attempts w + i) \<Longrightarrow> k \<le> n \<Longrightarrow> func args = Returned v \<Longrightarrow>
   retry_left n (publish_attempt pub func args) w =
     retry_left (n - k) (publish_attempt pub func args)
       (w\<lparr>attempts := attempts w + k,
          trace := trace w @ concat (replicate k [CallWrapped, Connect False])\<rparr>)"
proof (induction k arbitrary: n w)
  case 0
  then show ?case by simp
next
  case (Suc k)
  from Suc.prems(2) obtain m where n: "n = Suc m" by (cases n) auto
  let ?w1 = "w\<lparr>attempts := Suc (attempts w), trace := trace w @ [CallWrapped, Connect False]\<rparr>"
  have down: "\<not> reachable w (attempts w)" using Suc.prems(1) by force
  have a: "publish_attempt pub func args w = (Raised AMQPConnectionError, ?w1)"
    using publish_attempt_fail [of func args v w pub] Suc.prems(3) down by simp
  have later: "\<forall>i<k. \<not> reachable ?w1 (attempts ?w1 + i)"
    using Suc.prems(1) by auto
  have "retry_left m (publish_attempt pub func args) ?w1 =
     retry_left (m - k) (publish_attempt pub func args)
       (?w1\<lparr>attempts := attempts ?w1 + k,
          trace := trace ?w1 @ concat (replicate k [CallWrapped, Connect False])\<rparr>)"
    using Suc.IH [of ?w1 m] later Suc.prems n by simp
  then show ?case using a n by simp
qed

lemma publish_wrapper_ok:
  assumes "func args = Returned v" "\<forall>i<k. \<not> reachable w (attempts w + i)"
    "reachable w (attempts w + k)" "k < 5" "p_exchange pub = []"
  shows "publish_wrapper pub func args w =
     (case json_dumps (room w) v of
        Inl e \<Rightarrow>
          (Raised e,
           w\<lparr>attempts := Suc (attempts w + k),
             trace := trace w @ concat (replicate k [CallWrapped, Connect False]) @
               [CallWrapped, Connect True, QueueDeclare (p_queue pub), JsonDumps]\<rparr>)
      | Inr j \<Rightarrow>
          (Returned PNone,
           w\<lparr>attempts := Suc (attempts w + k),
             trace := trace w @ concat (replicate k [CallWrapped, Connect False]) @
               [CallWrapped, Connect True, QueueDeclare (p_queue pub), JsonDumps,
                BasicPublish [] (p_queue pub) (JsonText j)]\<rparr>))"
proof -
  let ?w1 = "w\<lparr>attempts := attempts w + k,
               trace := trace w @ concat (replicate k [CallWrapped, Connect False])\<rparr>"
  have a: "publish_wrapper pub func args w = retry_left (4 - k) (publish_attempt pub func args) ?w1"
    using retry_left_publish [of k w 4 func args v pub] assms
    by (simp add: publish_wrapper_def retry_def max_attempts_def)
  have b: "reachable ?w1 (attempts ?w1)" using assms(3) by simp
  have c: "publish_attempt pub func args ?w1 =
     (case json_dumps (room w) v of
        Inl e \<Rightarrow>
          (Raised e,
           ?w1\<lparr>attempts := Suc (attempts ?w1),
             trace := trace ?w1 @ [CallWrapped, Connect True, QueueDeclare (p_queue pub), JsonDumps]\<rparr>)
      | Inr j \<Rightarrow>
          (Returned PNone,
           ?w1\<lparr>attempts := Suc (attempts ?w1),
             trace := trace ?w1 @ [CallWrapped, Connect True, QueueDeclare (p_queue pub), JsonDumps,
               BasicPublish [] (p_queue pub) (JsonText j)]\<rparr>))"
    using publish_attempt_ok [of func args v ?w1 pub] assms(1,5) b by simp
  show ?thesis
  proof (cases "json_dumps (room w) v")
    case (Inl e)
    then have "\<not> is_connection_error e" by (rule json_dumps_error(1))
    then show ?thesis using a c Inl by (simp add: retry_left_final)
  next
    case (Inr j)
    then show ?thesis using a c by (simp add: retry_left_final)
  qed
qed

lemma publish_wrapper_exchange:
  assumes "func args = Returned v" "\<forall>i<k. \<not> reachable w (attempts w + i)"
    "reachable w (attempts w + k)" "k < 5" "p_exchange pub \<noteq> []"
  shows "publish_wrapper pub func args w =
     (Raised TypeError,
      w\<lparr>attempts := Suc (attempts w + k),
        trace := trace w @ concat (replicate k [CallWrapped, Connect False]) @
          [CallWrapped, Connect True, ExchangeDeclare (p_exchange pub) (p_exchange_type pub),
           QueueDeclare (p_queue pub), QueueBind (p_exchange pub) (p_queue pub), JsonDumps]\<rparr>)"
proof -
  let ?w1 = "w\<lparr>attempts := attempts w + k,
               trace := trace w @ concat (replicate k [CallWrapped, Connect False])\<rparr>"
  have a: "publish_wrapper pub func args w = retry_left (4 - k) (publish_attempt pub func args) ?w1"
    using retry_left_publish [of k w 4 func args v pub] assms
    by (simp add: publish_wrapper_def retry_def max_attempts_def)
  have b: "reachable ?w1 (attempts ?w1)" using assms(3) by simp
  have c: "publish_attempt pub func args ?w1 =
     (Raised TypeError,
      ?w1\<lparr>attempts := Suc (attempts ?w1),
        trace := trace ?w1 @ [CallWrapped, Connect True,
          ExchangeDeclare (p_exchange pub) (p_exchange_type pub), QueueDeclare (p_queue pub),
          QueueBind (p_exchange pub) (p_queue pub), JsonDumps]\<rparr>)"
    using publish_attempt_exchange [of func args v ?w1 pub] assms(1,5) b by blast
  show ?thesis using a c by (simp add: retry_left_final)
qed

lemma count_failed_attempts:
  "count_list (concat (replicate k [CallWrapped, Connect False])) CallWrapped = k"
  "count_list (concat (replicate k [CallWrapped, Connect False])) JsonDumps = 0"
  by (induction k) auto

section \<open>The retry policy (claims C3 and C4)\<close>

text \<open>
  Claim C3. An operation that raises a connection error on the first four of its five
  allowed attempts and returns on the fifth makes the whole call return that value, after
  exactly five invocations; an operation that raises a connection error on all five
  attempts makes the whole call raise the last of these errors, again after exactly five
  invocations. The invocations are counted by \<open>counting\<close>, from zero.
\<close>

theorem retry_five_attempts:
  "(conn_failures 4 operation s = Some s4 \<and> operation s4 = (Returned x, s5) \<longrightarrow>
      retry (counting operation) (0, s) = (Returned x, 5, s5)) \<and>
   (conn_failures 4 operation s = Some s4 \<and> operation s4 = (Raised e, s5) \<and>
    is_connection_error e \<longrightarrow>
      retry (counting operation) (0, s) = (Raised e, 5, s5))"
  using retry_left_counting [of 4 operation s s4 4 "Returned x" s5 0]
    retry_left_counting [of 4 operation s s4 4 "Raised e" s5 0]
  by (simp add: retry_def max_attempts_def)

text \<open>The operation is one attempt of a publisher on queue \<^verbatim>\<open>q1\<close> whose function returns 1;
  the broker is out of reach four times and then reachable, or out of reach five times.\<close>

theorem retry_five_attempts_witness:
  "conn_failures 4 (publish_attempt (PublishMessage ''q1'') (returning (PInt 1)) ())
     (world0\<lparr>reachable := up_from 4\<rparr>) =
     Some (world0\<lparr>reachable := up_from 4, attempts := 4,
             trace := concat (replicate 4 [CallWrapped, Connect False])\<rparr>) \<and>
   publish_attempt (PublishMessage ''q1'') (returning (PInt 1)) ()
     (world0\<lparr>reachable := up_from 4, attempts := 4,
             trace := concat (replicate 4 [CallWrapped, Connect False])\<rparr>) =
     (Returned PNone,
      world0\<lparr>reachable := up_from 4, attempts := 5,
        trace := concat (replicate 4 [CallWrapped, Connect False]) @
          [CallWrapped, Connect True, QueueDeclare ''q1'', JsonDumps,
           BasicPublish [] ''q1'' (JsonText (JNum 1))]\<rparr>) \<and>
   retry (counting (publish_attempt (PublishMessage ''q1'') (returning (PInt 1)) ()))
     (0, world0\<lparr>reachable := up_from 4\<rparr>) =
     (Returned PNone, 5,
      world0\<lparr>reachable := up_from 4, attempts := 5,
        trace := concat (replicate 4 [CallWrapped, Connect False]) @
          [CallWrapped, Connect True, QueueDeclare ''q1'', JsonDumps,
           BasicPublish [] ''q1'' (JsonText (JNum 1))]\<rparr>) \<and>
   conn_failures 4 (publish_attempt (PublishMessage ''q1'') (returning (PInt 1)) ())
     (world0\<lparr>reachable := up_from 5\<rparr>) =
     Some (world0\<lparr>reachable := up_from 5, attempts := 4,
             trace := concat (replicate 4 [CallWrapped, Connect False])\<rparr>) \<and>
   publish_attempt (PublishMessage ''q1'') (returning (PInt 1)) ()
     (world0\<lparr>reachable := up_from 5, attempts := 4,
             trace := concat (replicate 4 [CallWrapped, Connect False])\<rparr>) =
     (Raised AMQPConnectionError,
      world0\<lparr>reachable := up_from 5, attempts := 5,
        trace := concat (replicate 5 [CallWrapped, Connect False])\<rparr>) \<and>
   is_connection_error AMQPConnectionError \<and>
   retry (counting (publish_attempt (PublishMessage ''q1'') (returning (PInt 1)) ()))
     (0, world0\<lparr>reachable := up_from 5\<rparr>) =
     (Raised AMQPConnectionError, 5,
      world0\<lparr>reachable := up_from 5, attempts := 5,
        trace := concat (replicate 5 [CallWrapped, Connect False])\<rparr>)"
proof -
  let ?op = "publish_attempt (PublishMessage ''q1'') (returning (PInt 1)) ()"
  let ?sa = "world0\<lparr>reachable := up_from 4\<rparr>"
  let ?sb = "world0\<lparr>reachable := up_from 5\<rparr>"
  let ?s4a = "world0\<lparr>reachable := up_from 4, attempts := 4,
             trace := concat (replicate 4 [CallWrapped, Connect False])\<rparr>"
  let ?s4b = "world0\<lparr>reachable := up_from 5, attempts := 4,
             trace := concat (replicate 4 [CallWrapped, Connect False])\<rparr>"
  let ?s5a = "world0\<lparr>reachable := up_from 4, attempts := 5,
        trace := concat (replicate 4 [CallWrapped, Connect False]) @
          [CallWrapped, Connect True, QueueDeclare ''q1'', JsonDumps,
           BasicPublish [] ''q1'' (JsonText (JNum 1))]\<rparr>"
  let ?s5b = "world0\<lparr>reachable := up_from 5, attempts := 5,
        trace := concat (replicate 5 [CallWrapped, Connect False])\<rparr>"
  have step: "\<And>w. \<not> reachable w (attempts w) \<Longrightarrow>
      ?op w = (Raised AMQPConnectionError,
        w\<lparr>attempts := Suc (attempts w), trace := trace w @ [CallWrapped, Connect False]\<rparr>)"
    by (rule publish_attempt_fail) (simp add: returning_def)
  have fa: "conn_failures 4 ?op ?sa = Some ?s4a"
    by (simp add: eval_nat_numeral step world0_def up_from_def)
  have fb: "conn_failures 4 ?op ?sb = Some ?s4b"
    by (simp add: eval_nat_numeral step world0_def up_from_def)
  have la: "?op ?s4a = (Returned PNone, ?s5a)"
    using publish_attempt_ok [of "returning (PInt 1)" "()" "PInt 1" ?s4a "PublishMessage ''q1''"]
    by (simp add: returning_def PublishMessage_def world0_def up_from_def)
  have lb: "?op ?s4b = (Raised AMQPConnectionError, ?s5b)"
    using step [of ?s4b] by (simp add: eval_nat_numeral world0_def up_from_def)
  have ce: "is_connection_error AMQPConnectionError" by simp
  from retry_five_attempts [where operation = ?op and s = ?sa and ?s4.0 = ?s4a and x = PNone
      and ?s5.0 = ?s5a] fa la
  have ra: "retry (counting ?op) (0, ?sa) = (Returned PNone, 5, ?s5a)" by blast
  from retry_five_attempts [where operation = ?op and s = ?sb and ?s4.0 = ?s4b
      and ?s5.0 = ?s5b and e = AMQPConnectionError] fb lb
  have rb: "retry (counting ?op) (0, ?sb) = (Raised AMQPConnectionError, 5, ?s5b)" by simp
  show ?thesis by (intro conjI) (rule fa la ra fb lb ce rb)+
qed

text \<open>
  Claim C4, as amended. An operation that raises an error which is not of the class
  \<^verbatim>\<open>AMQPConnectionError\<close>, the class the decorator is given (\<^verbatim>\<open>ConnectionClosedByBroker\<close>
  belongs to it), is not retried: the whole call raises that error after a single
  invocation.
\<close>

theorem retry_other_error_once:
  "operation s = (Raised e, s') \<Longrightarrow> \<not> is_connection_error e \<Longrightarrow>
   retry (counting operation) (0, s) = (Raised e, 1, s')"
  using retry_left_counting [of 0 operation s s 4 "Raised e" s' 0]
  by (simp add: retry_def max_attempts_def)

text \<open>The publisher's function returns an object that \<^verbatim>\<open>json.dumps\<close> refuses: the
  TypeError of the serialisation reaches the caller after one invocation.\<close>

theorem retry_other_error_once_witness:
  "publish_attempt (PublishMessage ''q1'') (returning (PObject (PyObj ''<object>''))) () world0 =
     (Raised TypeError,
      world0\<lparr>attempts := 1,
        trace := [CallWrapped, Connect True, QueueDeclare ''q1'', JsonDumps]\<rparr>) \<and>
   \<not> is_connection_error TypeError \<and>
   retry (counting (publish_attempt (PublishMessage ''q1'')
       (returning (PObject (PyObj ''<object>''))) ())) (0, world0) =
     (Raised TypeError, 1,
      world0\<lparr>attempts := 1,
        trace := [CallWrapped, Connect True, QueueDeclare ''q1'', JsonDumps]\<rparr>)"
proof -
  let ?op = "publish_attempt (PublishMessage ''q1'') (returning (PObject (PyObj ''<object>''))) ()"
  let ?s1 = "world0\<lparr>attempts := 1,
    trace := [CallWrapped, Connect True, QueueDeclare ''q1'', JsonDumps]\<rparr>"
  have a: "?op world0 = (Raised TypeError, ?s1)"
    by (simp add: publish_attempt_def andthen_def call_wrapped_def ret_def dumps_def
        create_connection_and_channel_def connect_def emit_def queue_declare_def
        returning_def PublishMessage_def world0_def up_from_def)
  have b: "\<not> is_connection_error TypeError" by simp
  from retry_other_error_once [where operation = ?op and s = world0 and e = TypeError
      and s' = ?s1] a b show ?thesis by blast
qed

text \<open>
  Claim C4 as stated has no retry for any error other than the failure to establish a
  connection. \<^verbatim>\<open>ConnectionClosedByBroker\<close> is another error, raised on a connection that was
  established, and the decorator retries it, being a subclass of the class it is given. A
  publisher whose function raises it is invoked five times, and no connection is attempted:
  each attempt ends in the call of the function.
\<close>

theorem retry_closed_by_broker_counterexample:
  "ConnectionClosedByBroker \<noteq> AMQPConnectionError \<and>
   publish_attempt (PublishMessage ''q1'') (raising ConnectionClosedByBroker) () world0 =
     (Raised ConnectionClosedByBroker, world0\<lparr>trace := [CallWrapped]\<rparr>) \<and>
   retry (counting (publish_attempt (PublishMessage ''q1'') (raising ConnectionClosedByBroker) ()))
     (0, world0) =
     (Raised ConnectionClosedByBroker, 5,
      world0\<lparr>trace := [CallWrapped, CallWrapped, CallWrapped, CallWrapped, CallWrapped]\<rparr>)"
  by (simp add: retry_def max_attempts_def eval_nat_numeral counting_apply publish_attempt_def
      andthen_def call_wrapped_def emit_def raising_def world0_def)

section \<open>PublishMessage with an exchange (claim C1)\<close>

text \<open>
  Claim C1 says that the publisher sends the JSON text of the value its function returned,
  with the queue as routing key, on the given exchange when there is one. With an exchange
  the code does not: \<^verbatim>\<open>result\<close> is rebound to what \<^verbatim>\<open>queue_declare\<close> returns, a method frame,
  and \<^verbatim>\<open>json.dumps\<close> raises TypeError on it. For every publisher with an exchange, every
  function that returns and a broker that is reachable, the call raises TypeError after
  declaring the exchange, the queue and the binding, and publishes nothing. (Without an
  exchange the value is published: \<open>publish_wrapper_ok\<close>.)
\<close>

theorem publish_with_exchange_raises:
  assumes "func args = Returned v" "reachable w (attempts w)" "p_exchange pub \<noteq> []"
  shows "publish_wrapper pub func args w =
     (Raised TypeError,
      w\<lparr>attempts := Suc (attempts w),
        trace := trace w @
          [CallWrapped, Connect True, ExchangeDeclare (p_exchange pub) (p_exchange_type pub),
           QueueDeclare (p_queue pub), QueueBind (p_exchange pub) (p_queue pub), JsonDumps]\<rparr>)"
  using publish_wrapper_exchange [of func args v 0 w pub] assms by simp

text \<open>The input: \<^verbatim>\<open>PublishMessage(queue='q3', exchange='ex1')\<close> around a function that
  returns \<^verbatim>\<open>{"x": 1}\<close>.\<close>

theorem publish_with_exchange_raises_witness:
  "returning (PDict [(KStr ''x'', PInt 1)]) () = Returned (PDict [(KStr ''x'', PInt 1)]) \<and>
   reachable world0 (attempts world0) \<and>
   p_exchange ((PublishMessage ''q3'')\<lparr>p_exchange := ''ex1''\<rparr>) \<noteq> [] \<and>
   publish_wrapper ((PublishMessage ''q3'')\<lparr>p_exchange := ''ex1''\<rparr>)
     (returning (PDict [(KStr ''x'', PInt 1)])) () world0 =
     (Raised TypeError,
      world0\<lparr>attempts := 1,
        trace :=
          [CallWrapped, Connect True, ExchangeDeclare ''ex1'' ''fanout'', QueueDeclare ''q3'',
           QueueBind ''ex1'' ''q3'', JsonDumps]\<rparr>)"
proof -
  let ?pub = "(PublishMessage ''q3'')\<lparr>p_exchange := ''ex1''\<rparr>"
  let ?v = "PDict [(KStr ''x'', PInt 1)]"
  have a: "returning ?v () = Returned ?v" by (simp add: returning_def)
  have b: "reachable world0 (attempts world0)" by (simp add: world0_def up_from_def)
  have c: "p_exchange ?pub \<noteq> []" by simp
  from publish_with_exchange_raises [where func = "returning ?v" and args = "()" and v = ?v
      and w = world0 and pub = ?pub] a b c
  show ?thesis by (simp add: PublishMessage_def world0_def)
qed

section \<open>What a retried publisher repeats (claim C10)\<close>

text \<open>
  Claim C10, as amended. The user's function is called inside the retried region: when the
  connection fails \<open>k\<close> times before it succeeds (\<open>k < 5\<close>), one call of the wrapped function
  runs the user's function \<open>k + 1\<close> times. The serialisation is not repeated: \<^verbatim>\<open>json.dumps\<close>
  stands after the connection is made, and runs once, in the attempt that connects.
\<close>

theorem publisher_reruns_function:
  assumes "func args = Returned v" "\<forall>i<k. \<not> reachable w (attempts w + i)"
    "reachable w (attempts w + k)" "k < 5"
  shows "count_list (trace (snd (publish_wrapper pub func args w))) CallWrapped =
           count_list (trace w) CallWrapped + k + 1 \<and>
         count_list (trace (snd (publish_wrapper pub func args w))) JsonDumps =
           count_list (trace w) JsonDumps + 1"
proof (cases "p_exchange pub = []")
  case True
  show ?thesis
    using publish_wrapper_ok [of func args v k w pub] assms True
    by (cases "json_dumps (room w) v") (simp_all add: count_failed_attempts)
next
  case False
  show ?thesis
    using publish_wrapper_exchange [of func args v k w pub] assms False
    by (simp add: count_failed_attempts)
qed

text \<open>One failed connection, then a reachable broker.\<close>

theorem publisher_reruns_function_witness:
  "returning (PInt 1) () = Returned (PInt 1) \<and>
   \<not> reachable (world0\<lparr>reachable := up_from 1\<rparr>)
      (attempts (world0\<lparr>reachable := up_from 1\<rparr>)) \<and>
   reachable (world0\<lparr>reachable := up_from 1\<rparr>) (attempts (world0\<lparr>reachable := up_from 1\<rparr>) + 1) \<and>
   (1::nat) < 5 \<and>
   count_list (trace (snd (publish_wrapper (PublishMessage ''q1'') (returning (PInt 1)) ()
     (world0\<lparr>reachable := up_from 1\<rparr>)))) CallWrapped = 2 \<and>
   count_list (trace (snd (publish_wrapper (PublishMessage ''q1'') (returning (PInt 1)) ()
     (world0\<lparr>reachable := up_from 1\<rparr>)))) JsonDumps = 1"
proof -
  let ?w = "world0\<lparr>reachable := up_from 1\<rparr>"
  have a: "returning (PInt 1) () = Returned (PInt 1)" by (simp add: returning_def)
  have b: "\<forall>i<1. \<not> reachable ?w (attempts ?w + i)" by (simp add: world0_def up_from_def)
  have c: "reachable ?w (attempts ?w + 1)" by (simp add: world0_def up_from_def)
  have d: "(1::nat) < 5" by simp
  from publisher_reruns_function [where func = "returning (PInt 1)" and args = "()"
      and v = "PInt 1" and w = ?w and k = 1 and pub = "PublishMessage ''q1''", OF a b c d]
  have e: "count_list (trace (snd (publish_wrapper (PublishMessage ''q1'') (returning (PInt 1)) ()
       ?w))) CallWrapped = 2 \<and>
     count_list (trace (snd (publish_wrapper (PublishMessage ''q1'') (returning (PInt 1)) ()
       ?w))) JsonDumps = 1"
    by (simp add: world0_def)
  have b': "\<not> reachable ?w (attempts ?w)" by (simp add: world0_def up_from_def)
  from a b' c d e show ?thesis by blast
qed

text \<open>
  Claim C10 as stated has the serialisation repeated on every attempt as well. With one
  failed connection the function runs twice and \<^verbatim>\<open>json.dumps\<close> once.
\<close>

theorem serialization_not_repeated_counterexample:
  "publish_wrapper (PublishMessage ''q1'') (returning (PInt 1)) ()
     (world0\<lparr>reachable := up_from 1\<rparr>) =
     (Returned PNone,
      world0\<lparr>reachable := up_from 1, attempts := 2,
        trace :=
          [CallWrapped, Connect False,
           CallWrapped, Connect True, QueueDeclare ''q1'', JsonDumps,
           BasicPublish [] ''q1'' (JsonText (JNum 1))]\<rparr>) \<and>
   count_list
     [CallWrapped, Connect False,
      CallWrapped, Connect True, QueueDeclare ''q1'', JsonDumps,
      BasicPublish [] ''q1'' (JsonText (JNum 1))] JsonDumps \<noteq>
   count_list
     [CallWrapped, Connect False,
      CallWrapped, Connect True, QueueDeclare ''q1'', JsonDumps,
      BasicPublish [] ''q1'' (JsonText (JNum 1))] CallWrapped"
proof -
  let ?w = "world0\<lparr>reachable := up_from 1\<rparr>"
  have a: "returning (PInt 1) () = Returned (PInt 1)" by (simp add: returning_def)
  have b: "\<forall>i<1. \<not> reachable ?w (attempts ?w + i)" by (simp add: world0_def up_from_def)
  have c: "reachable ?w (attempts ?w + 1)" by (simp add: world0_def up_from_def)
  from publish_wrapper_ok [where func = "returning (PInt 1)" and args = "()"
      and v = "PInt 1" and w = ?w and k = 1 and pub = "PublishMessage ''q1''", OF a b c]
  show ?thesis by (simp add: world0_def PublishMessage_def)
qed

section \<open>The handler of ConsumeMessage\<close>

lemma dumps_send_log:
  "json_dumps r (send_log channel meth properties v) = Inr je \<Longrightarrow>
   \<exists>jb. je = JObj [(''channel'', JStr (py_str channel)), (''method'', JStr (py_str meth)),
                   (''properties'', JStr (py_str properties)), (''body'', jb)] \<and>
        json_dumps (r - 1) v = Inr jb"
  by (auto simp: send_log_def split: if_splits sum.splits)

lemma message_handler_logging:
  assumes "d_body d = JsonText j" "json_loads (room w) j = Inr v"
    "\<forall>i<k. \<not> reachable w (attempts w + i)" "reachable w (attempts w + k)" "k < 5"
    "c_logging cons"
    "json_dumps (room w) (send_log (d_channel d) (d_method d) (d_properties d) v) = Inr je"
  shows "message_handler cons func d w =
     (case func v of
        Returned x \<Rightarrow> Returned PNone | Raised e \<Rightarrow> Raised e | Blocked \<Rightarrow> Blocked,
      w\<lparr>attempts := Suc (attempts w + k),
        trace := trace w @ concat (replicate k [CallWrapped, Connect False]) @
          [CallWrapped, Connect True, QueueDeclare (c_logging_queue cons), JsonDumps,
           BasicPublish [] (c_logging_queue cons) (JsonText je),
           CallConsumer v]\<rparr>)"
proof -
  let ?f = "\<lambda>(channel, meth, properties, body). Returned (send_log channel meth properties body)"
  let ?args = "(d_channel d, d_method d, d_properties d, v)"
  let ?v = "send_log (d_channel d) (d_method d) (d_properties d) v"
  have a: "?f ?args = Returned ?v" by simp
  have b: "p_exchange (PublishMessage (c_logging_queue cons)) = []"
    by (simp add: PublishMessage_def)
  note c = publish_wrapper_ok [where func = ?f and args = ?args and v = ?v and w = w and k = k
      and pub = "PublishMessage (c_logging_queue cons)", OF a assms(3,4,5) b]
  have q: "p_queue (PublishMessage (c_logging_queue cons)) = c_logging_queue cons"
    by (simp add: PublishMessage_def)
  show ?thesis
    unfolding message_handler_def andthen_def decode_utf8_def
    using assms(1,2,6,7) c
    by (cases "func v") (simp_all add: q call_consumer_def ret_def emit_def)
qed

lemma message_handler_silent:
  assumes "d_body d = JsonText j" "json_loads (room w) j = Inr v" "\<not> c_logging cons"
  shows "message_handler cons func d w =
     (case func v of
        Returned x \<Rightarrow> Returned PNone | Raised e \<Rightarrow> Raised e | Blocked \<Rightarrow> Blocked,
      w\<lparr>trace := trace w @ [CallConsumer v]\<rparr>)"
  using assms
  by (cases "func v")
     (simp_all add: message_handler_def andthen_def decode_utf8_def call_consumer_def ret_def
        emit_def)

text \<open>Whatever stops the logging publisher stops the handler, before the function is
  called.\<close>

lemma message_handler_log_fails:
  assumes "d_body d = JsonText j" "json_loads (room w) j = Inr v" "c_logging cons"
    "publish_wrapper (PublishMessage (c_logging_queue cons))
       (\<lambda>(channel, meth, properties, body). Returned (send_log channel meth properties body))
       (d_channel d, d_method d, d_properties d, v) w = (Raised e, w')"
  shows "message_handler cons func d w = (Raised e, w')"
  using assms by (simp add: message_handler_def andthen_def decode_utf8_def)

section \<open>What the handler does with a message (claim C2)\<close>

text \<open>
  Claim C2, as amended. For a delivered message whose body is the UTF-8 of a JSON text that
  \<^verbatim>\<open>json.loads\<close> decodes to a value \<open>v\<close>: with logging disabled, the handler of
  \<^verbatim>\<open>ConsumeMessage\<close> calls the wrapped function exactly once, with \<open>v\<close>. With logging enabled,
  if the logging publisher reaches the broker within its five attempts (after \<open>k\<close> failed
  ones) and \<^verbatim>\<open>json.dumps\<close> can write the envelope, the handler first publishes to the logging
  queue, on the default exchange, the envelope with the members \<^verbatim>\<open>channel\<close>, \<^verbatim>\<open>method\<close>,
  \<^verbatim>\<open>properties\<close> (each the \<^verbatim>\<open>str()\<close> of the object) and \<^verbatim>\<open>body\<close> (a JSON text that decodes to
  \<open>v\<close>), and then calls the wrapped function exactly once, with \<open>v\<close>. In both cases the
  handler returns or raises as the function does.
\<close>

theorem handler_logs_then_calls:
  assumes "d_body d = JsonText j" "json_loads (room w) j = Inr v"
  shows
    "(\<not> c_logging cons \<longrightarrow>
        message_handler cons func d w =
          (case func v of
             Returned x \<Rightarrow> Returned PNone | Raised e \<Rightarrow> Raised e | Blocked \<Rightarrow> Blocked,
           w\<lparr>trace := trace w @ [CallConsumer v]\<rparr>)) \<and>
     (c_logging cons \<and> (\<forall>i<k. \<not> reachable w (attempts w + i)) \<and>
      reachable w (attempts w + k) \<and> k < 5 \<and>
      json_dumps (room w) (send_log (d_channel d) (d_method d) (d_properties d) v) = Inr je \<longrightarrow>
        (\<exists>jb. je = JObj [(''channel'', JStr (py_str (d_channel d))),
                         (''method'', JStr (py_str (d_method d))),
                         (''properties'', JStr (py_str (d_properties d))),
                         (''body'', jb)] \<and>
              json_loads (room w) jb = Inr v) \<and>
        message_handler cons func d w =
          (case func v of
             Returned x \<Rightarrow> Returned PNone | Raised e \<Rightarrow> Raised e | Blocked \<Rightarrow> Blocked,
           w\<lparr>attempts := Suc (attempts w + k),
             trace := trace w @ concat (replicate k [CallWrapped, Connect False]) @
               [CallWrapped, Connect True, QueueDeclare (c_logging_queue cons), JsonDumps,
                BasicPublish [] (c_logging_queue cons) (JsonText je),
                CallConsumer v]\<rparr>))"
proof (intro conjI impI)
  assume "\<not> c_logging cons"
  from message_handler_silent [OF assms this]
  show "message_handler cons func d w =
          (case func v of
             Returned x \<Rightarrow> Returned PNone | Raised e \<Rightarrow> Raised e | Blocked \<Rightarrow> Blocked,
           w\<lparr>trace := trace w @ [CallConsumer v]\<rparr>)" .
next
  assume h: "c_logging cons \<and> (\<forall>i<k. \<not> reachable w (attempts w + i)) \<and>
      reachable w (attempts w + k) \<and> k < 5 \<and>
      json_dumps (room w) (send_log (d_channel d) (d_method d) (d_properties d) v) = Inr je"
  from h dumps_send_log [of "room w" "d_channel d" "d_method d" "d_properties d" v je]
  obtain jb where jb: "je = JObj [(''channel'', JStr (py_str (d_channel d))),
                         (''method'', JStr (py_str (d_method d))),
                         (''properties'', JStr (py_str (d_properties d))),
                         (''body'', jb)]" "json_dumps (room w - 1) v = Inr jb"
    by blast
  have "json_plain v" using assms(2) by (rule plain_loads(1))
  then have "json_loads (room w) jb = Inr v"
    using jb(2) by (rule loads_dumps(1)) simp
  with jb(1)
  show "\<exists>jb. je = JObj [(''channel'', JStr (py_str (d_channel d))),
                         (''method'', JStr (py_str (d_method d))),
                         (''properties'', JStr (py_str (d_properties d))),
                         (''body'', jb)] \<and>
              json_loads (room w) jb = Inr v" by blast
next
  assume h: "c_logging cons \<and> (\<forall>i<k. \<not> reachable w (attempts w + i)) \<and>
      reachable w (attempts w + k) \<and> k < 5 \<and>
      json_dumps (room w) (send_log (d_channel d) (d_method d) (d_properties d) v) = Inr je"
  then have l: "c_logging cons" and r1: "\<forall>i<k. \<not> reachable w (attempts w + i)"
    and r2: "reachable w (attempts w + k)" and k: "k < 5"
    and je: "json_dumps (room w) (send_log (d_channel d) (d_method d) (d_properties d) v) = Inr je"
    by blast+
  from message_handler_logging [OF assms r1 r2 k l je]
  show "message_handler cons func d w =
          (case func v of
             Returned x \<Rightarrow> Returned PNone | Raised e \<Rightarrow> Raised e | Blocked \<Rightarrow> Blocked,
           w\<lparr>attempts := Suc (attempts w + k),
             trace := trace w @ concat (replicate k [CallWrapped, Connect False]) @
               [CallWrapped, Connect True, QueueDeclare (c_logging_queue cons), JsonDumps,
                BasicPublish [] (c_logging_queue cons) (JsonText je),
                CallConsumer v]\<rparr>)" .
qed

text \<open>A message \<^verbatim>\<open>{"x": 1}\<close> delivered to \<^verbatim>\<open>ConsumeMessage('q1')\<close>, logging enabled by
  default, the broker reachable; and the same message with logging disabled.\<close>

theorem handler_logs_then_calls_witness:
  "d_body (delivery_of (JsonText (JObj [(''x'', JNum 1)]))) = JsonText (JObj [(''x'', JNum 1)]) \<and>
   json_loads (room world0) (JObj [(''x'', JNum 1)]) = Inr (PDict [(KStr ''x'', PInt 1)]) \<and>
   c_logging (ConsumeMessage ''q1'') \<and>
   reachable world0 (attempts world0 + 0) \<and>
   (0::nat) < 5 \<and>
   json_dumps (room world0)
     (send_log (PyObj ''<BlockingChannel>'') (PyObj ''<Basic.Deliver>'') (PyObj ''<BasicProperties>'')
        (PDict [(KStr ''x'', PInt 1)])) =
     Inr (JObj [(''channel'', JStr ''<BlockingChannel>''),
                (''method'', JStr ''<Basic.Deliver>''),
                (''properties'', JStr ''<BasicProperties>''),
                (''body'', JObj [(''x'', JNum 1)])]) \<and>
   message_handler (ConsumeMessage ''q1'') (returning PNone)
     (delivery_of (JsonText (JObj [(''x'', JNum 1)]))) world0 =
     (Returned PNone,
      world0\<lparr>attempts := 1,
        trace :=
          [CallWrapped, Connect True, QueueDeclare ''logging'', JsonDumps,
           BasicPublish [] ''logging''
             (JsonText (JObj [(''channel'', JStr ''<BlockingChannel>''),
                              (''method'', JStr ''<Basic.Deliver>''),
                              (''properties'', JStr ''<BasicProperties>''),
                              (''body'', JObj [(''x'', JNum 1)])])),
           CallConsumer (PDict [(KStr ''x'', PInt 1)])]\<rparr>) \<and>
   \<not> c_logging ((ConsumeMessage ''q1'')\<lparr>c_logging := False\<rparr>) \<and>
   message_handler ((ConsumeMessage ''q1'')\<lparr>c_logging := False\<rparr>) (returning PNone)
     (delivery_of (JsonText (JObj [(''x'', JNum 1)]))) world0 =
     (Returned PNone, world0\<lparr>trace := [CallConsumer (PDict [(KStr ''x'', PInt 1)])]\<rparr>)"
proof -
  let ?j = "JObj [(''x'', JNum 1)]"
  let ?v = "PDict [(KStr ''x'', PInt 1)]"
  let ?d = "delivery_of (JsonText ?j)"
  let ?je = "JObj [(''channel'', JStr ''<BlockingChannel>''),
                (''method'', JStr ''<Basic.Deliver>''),
                (''properties'', JStr ''<BasicProperties>''),
                (''body'', JObj [(''x'', JNum 1)])]"
  let ?quiet = "(ConsumeMessage ''q1'')\<lparr>c_logging := False\<rparr>"
  have a: "d_body ?d = JsonText ?j" by (simp add: delivery_of_def)
  have b: "json_loads (room world0) ?j = Inr ?v" by (simp add: world0_def)
  have l: "c_logging (ConsumeMessage ''q1'')" by (simp add: ConsumeMessage_def)
  have r0: "\<forall>i<0. \<not> reachable world0 (attempts world0 + i)" by simp
  have r: "reachable world0 (attempts world0 + 0)" by (simp add: world0_def up_from_def)
  have k: "(0::nat) < 5" by simp
  have e: "json_dumps (room world0)
     (send_log (PyObj ''<BlockingChannel>'') (PyObj ''<Basic.Deliver>'') (PyObj ''<BasicProperties>'')
        ?v) = Inr ?je"
    by (simp add: send_log_def world0_def)
  have e': "json_dumps (room world0) (send_log (d_channel ?d) (d_method ?d) (d_properties ?d) ?v) =
      Inr ?je"
    using e by (simp add: delivery_of_def)
  note t = handler_logs_then_calls [where d = ?d and j = ?j and w = world0 and v = ?v
      and func = "returning PNone", OF a b]
  from t [where cons = "ConsumeMessage ''q1''" and k = 0 and je = ?je, THEN conjunct2]
    l r0 r k e'
  have h: "message_handler (ConsumeMessage ''q1'') (returning PNone) ?d world0 =
     (Returned PNone,
      world0\<lparr>attempts := 1,
        trace :=
          [CallWrapped, Connect True, QueueDeclare ''logging'', JsonDumps,
           BasicPublish [] ''logging'' (JsonText ?je),
           CallConsumer ?v]\<rparr>)"
    by (simp add: ConsumeMessage_def returning_def world0_def)
  have q: "\<not> c_logging ?quiet" by simp
  from t [where cons = ?quiet and k = 0 and je = ?je, THEN conjunct1] q
  have s: "message_handler ?quiet (returning PNone) ?d world0 =
     (Returned PNone, world0\<lparr>trace := [CallConsumer ?v]\<rparr>)"
    by (simp add: returning_def world0_def)
  show ?thesis by (intro conjI) (rule a b l r k e h q s)+
qed

text \<open>
  Claim C2 as stated speaks of every delivered message. Here are three deliveries to
  \<^verbatim>\<open>ConsumeMessage('q1')\<close>, logging enabled by default, after which the wrapped function has
  not been called. A body that is not JSON: the decoding raises ValueError. The message
  \<^verbatim>\<open>{"x": 1}\<close> while the broker is out of reach for the five attempts of the logging
  publisher: the handler raises the connection error. A body of 900 lists inside one
  another, which is as deep as \<^verbatim>\<open>json.loads\<close> can go in that world: the envelope is one
  level deeper, and \<^verbatim>\<open>json.dumps\<close> raises RecursionError on it.
\<close>

theorem handler_skips_function_counterexample:
  "message_handler (ConsumeMessage ''q1'') (returning PNone) (delivery_of OtherBytes) world0 =
     (Raised ValueError, world0) \<and>
   message_handler (ConsumeMessage ''q1'') (returning PNone)
     (delivery_of (JsonText (JObj [(''x'', JNum 1)]))) (world0\<lparr>reachable := up_from 5\<rparr>) =
     (Raised AMQPConnectionError,
      world0\<lparr>reachable := up_from 5, attempts := 5,
        trace := [CallWrapped, Connect False, CallWrapped, Connect False, CallWrapped,
          Connect False, CallWrapped, Connect False, CallWrapped, Connect False]\<rparr>) \<and>
   json_loads (room world0) (nested_json 900) = Inr (nested_py 900) \<and>
   message_handler (ConsumeMessage ''q1'') (returning PNone)
     (delivery_of (JsonText (nested_json 900))) world0 =
     (Raised RecursionError,
      world0\<lparr>attempts := 1,
        trace := [CallWrapped, Connect True, QueueDeclare ''logging'', JsonDumps]\<rparr>)"
proof -
  note defs = message_handler_def publish_wrapper_def publish_attempt_def retry_def
    max_attempts_def eval_nat_numeral andthen_def ret_def decode_utf8_def call_wrapped_def
    create_connection_and_channel_def connect_def emit_def ConsumeMessage_def
    PublishMessage_def delivery_of_def world0_def up_from_def
  have a: "message_handler (ConsumeMessage ''q1'') (returning PNone) (delivery_of OtherBytes)
      world0 = (Raised ValueError, world0)"
    by (simp add: message_handler_def andthen_def decode_utf8_def delivery_of_def)
  have b: "message_handler (ConsumeMessage ''q1'') (returning PNone)
     (delivery_of (JsonText (JObj [(''x'', JNum 1)]))) (world0\<lparr>reachable := up_from 5\<rparr>) =
     (Raised AMQPConnectionError,
      world0\<lparr>reachable := up_from 5, attempts := 5,
        trace := [CallWrapped, Connect False, CallWrapped, Connect False, CallWrapped,
          Connect False, CallWrapped, Connect False, CallWrapped, Connect False]\<rparr>)"
    by (simp add: defs)
  have c: "json_loads (room world0) (nested_json 900) = Inr (nested_py 900)"
    by (simp add: world0_def loads_nested)
  have e: "json_dumps 900 (send_log (PyObj ''<BlockingChannel>'') (PyObj ''<Basic.Deliver>'')
      (PyObj ''<BasicProperties>'') (nested_py 900)) = Inl RecursionError"
    by (simp add: send_log_def dumps_nested_deep)
  let ?d = "delivery_of (JsonText (nested_json 900))"
  let ?f = "\<lambda>(channel, meth, properties, body). Returned (send_log channel meth properties body)"
  have p: "publish_wrapper (PublishMessage ''logging'') ?f
      (d_channel ?d, d_method ?d, d_properties ?d, nested_py 900) world0 =
     (Raised RecursionError,
      world0\<lparr>attempts := 1,
        trace := [CallWrapped, Connect True, QueueDeclare ''logging'', JsonDumps]\<rparr>)"
    using publish_wrapper_ok [where func = ?f
        and args = "(d_channel ?d, d_method ?d, d_properties ?d, nested_py 900)"
        and v = "send_log (d_channel ?d) (d_method ?d) (d_properties ?d) (nested_py 900)"
        and w = world0 and k = 0 and pub = "PublishMessage ''logging''"] e
    by (simp add: world0_def up_from_def PublishMessage_def delivery_of_def)
  have d: "message_handler (ConsumeMessage ''q1'') (returning PNone) ?d world0 =
     (Raised RecursionError,
      world0\<lparr>attempts := 1,
        trace := [CallWrapped, Connect True, QueueDeclare ''logging'', JsonDumps]\<rparr>)"
    using message_handler_log_fails [where d = ?d and j = "nested_json 900" and w = world0
        and v = "nested_py 900" and cons = "ConsumeMessage ''q1''" and func = "returning PNone"
        and e = RecursionError] c p
    by (simp add: ConsumeMessage_def delivery_of_def)
  show ?thesis by (intro conjI) (rule a b c d)+
qed

section \<open>Publishing and consuming a value (claim C6)\<close>

text \<open>
  Claim C6, as amended. Let \<open>v\<close> be a value that \<^verbatim>\<open>json.dumps\<close> accepts, built from \<^verbatim>\<open>None\<close>,
  booleans, integers, floats other than NaN, strings, lists, and dictionaries with string
  keys. A publisher without an exchange whose function returns \<open>v\<close> puts the JSON text of
  \<open>v\<close> on the wire (the broker being reachable within five attempts, after \<open>k\<close> failed ones),
  and a consumer whose interpreter has at least the room for nesting that the publisher's
  had decodes that body to \<open>v\<close>. Its handler then does with \<open>v\<close> what claim C2 says: without
  logging it calls its function with \<open>v\<close>; with logging, when the envelope is published, the
  envelope's body member is the same JSON text and the function is called with \<open>v\<close>. (The
  publisher with an exchange is the subject of claim C1.)
\<close>

theorem publish_consume_roundtrip:
  assumes "json_native v" "json_dumps (room w) v = Inr j"
    "func args = Returned v" "p_exchange pub = []"
    "\<forall>i<k. \<not> reachable w (attempts w + i)" "reachable w (attempts w + k)" "k < 5"
    "room w \<le> room w'"
  shows
    "publish_wrapper pub func args w =
       (Returned PNone,
        w\<lparr>attempts := Suc (attempts w + k),
          trace := trace w @ concat (replicate k [CallWrapped, Connect False]) @
            [CallWrapped, Connect True, QueueDeclare (p_queue pub), JsonDumps,
             BasicPublish [] (p_queue pub) (JsonText j)]\<rparr>) \<and>
     loads_utf8 (room w') (JsonText j) = Inr v \<and>
     (\<not> c_logging cons \<longrightarrow>
        message_handler cons handler (d\<lparr>d_body := JsonText j\<rparr>) w' =
          (case handler v of
             Returned x \<Rightarrow> Returned PNone | Raised e \<Rightarrow> Raised e | Blocked \<Rightarrow> Blocked,
           w'\<lparr>trace := trace w' @ [CallConsumer v]\<rparr>)) \<and>
     (c_logging cons \<and> (\<forall>i<k'. \<not> reachable w' (attempts w' + i)) \<and>
      reachable w' (attempts w' + k') \<and> k' < 5 \<and>
      json_dumps (room w') (send_log (d_channel d) (d_method d) (d_properties d) v) = Inr je \<longrightarrow>
        message_handler cons handler (d\<lparr>d_body := JsonText j\<rparr>) w' =
          (case handler v of
             Returned x \<Rightarrow> Returned PNone | Raised e \<Rightarrow> Raised e | Blocked \<Rightarrow> Blocked,
           w'\<lparr>attempts := Suc (attempts w' + k'),
             trace := trace w' @ concat (replicate k' [CallWrapped, Connect False]) @
               [CallWrapped, Connect True, QueueDeclare (c_logging_queue cons), JsonDumps,
                BasicPublish [] (c_logging_queue cons)
                  (JsonText (JObj [(''channel'', JStr (py_str (d_channel d))),
                                   (''method'', JStr (py_str (d_method d))),
                                   (''properties'', JStr (py_str (d_properties d))),
                                   (''body'', j)])),
                CallConsumer v]\<rparr>))"
proof -
  let ?d = "d\<lparr>d_body := JsonText j\<rparr>"
  have pl: "json_plain v" using assms(1) by (simp add: json_native_def)
  have l: "json_loads (room w') j = Inr v" using pl assms(2,8) by (rule loads_dumps(1))
  have p: "publish_wrapper pub func args w =
       (Returned PNone,
        w\<lparr>attempts := Suc (attempts w + k),
          trace := trace w @ concat (replicate k [CallWrapped, Connect False]) @
            [CallWrapped, Connect True, QueueDeclare (p_queue pub), JsonDumps,
             BasicPublish [] (p_queue pub) (JsonText j)]\<rparr>)"
    using publish_wrapper_ok [of func args v k w pub] assms(2-7) by simp
  have b: "d_body ?d = JsonText j" by simp
  have s: "\<not> c_logging cons \<Longrightarrow>
      message_handler cons handler ?d w' =
          (case handler v of
             Returned x \<Rightarrow> Returned PNone | Raised e \<Rightarrow> Raised e | Blocked \<Rightarrow> Blocked,
           w'\<lparr>trace := trace w' @ [CallConsumer v]\<rparr>)"
    using message_handler_silent [OF b l, of cons handler] by simp
  have g: "message_handler cons handler ?d w' =
          (case handler v of
             Returned x \<Rightarrow> Returned PNone | Raised e \<Rightarrow> Raised e | Blocked \<Rightarrow> Blocked,
           w'\<lparr>attempts := Suc (attempts w' + k'),
             trace := trace w' @ concat (replicate k' [CallWrapped, Connect False]) @
               [CallWrapped, Connect True, QueueDeclare (c_logging_queue cons), JsonDumps,
                BasicPublish [] (c_logging_queue cons)
                  (JsonText (JObj [(''channel'', JStr (py_str (d_channel d))),
                                   (''method'', JStr (py_str (d_method d))),
                                   (''properties'', JStr (py_str (d_properties d))),
                                   (''body'', j)])),
                CallConsumer v]\<rparr>)"
    if h: "c_logging cons \<and> (\<forall>i<k'. \<not> reachable w' (attempts w' + i)) \<and>
      reachable w' (attempts w' + k') \<and> k' < 5 \<and>
      json_dumps (room w') (send_log (d_channel d) (d_method d) (d_properties d) v) = Inr je"
  proof -
    from h have lg: "c_logging cons" and r1: "\<forall>i<k'. \<not> reachable w' (attempts w' + i)"
      and r2: "reachable w' (attempts w' + k')" and k': "k' < 5"
      and je: "json_dumps (room w') (send_log (d_channel d) (d_method d) (d_properties d) v) =
        Inr je"
      by blast+
    from dumps_send_log [OF je] obtain jb where
      jb: "je = JObj [(''channel'', JStr (py_str (d_channel d))),
                      (''method'', JStr (py_str (d_method d))),
                      (''properties'', JStr (py_str (d_properties d))),
                      (''body'', jb)]" "json_dumps (room w' - 1) v = Inr jb"
      by blast
    have same: "jb = j" using assms(2) jb(2) by (rule dumps_same(1))
    have je': "json_dumps (room w') (send_log (d_channel ?d) (d_method ?d) (d_properties ?d) v) =
        Inr je" using je by simp
    from message_handler_logging [OF b l r1 r2 k' lg je', of handler] jb(1) same
    show ?thesis by simp
  qed
  from p l s g show ?thesis by simp
qed

text \<open>The value \<^verbatim>\<open>{"x": 1, "y": 1.5}\<close> through \<^verbatim>\<open>PublishMessage('q1')\<close> and
  \<^verbatim>\<open>ConsumeMessage('q1')\<close>, logging enabled by default.\<close>

theorem publish_consume_roundtrip_witness:
  "json_native (PDict [(KStr ''x'', PInt 1), (KStr ''y'', PFloat (Float ''1.5''))]) \<and>
   json_dumps (room world0) (PDict [(KStr ''x'', PInt 1), (KStr ''y'', PFloat (Float ''1.5''))]) =
     Inr (JObj [(''x'', JNum 1), (''y'', JFloat (Float ''1.5''))]) \<and>
   returning (PDict [(KStr ''x'', PInt 1), (KStr ''y'', PFloat (Float ''1.5''))]) () =
     Returned (PDict [(KStr ''x'', PInt 1), (KStr ''y'', PFloat (Float ''1.5''))]) \<and>
   p_exchange (PublishMessage ''q1'') = [] \<and>
   reachable world0 (attempts world0 + 0) \<and>
   (0::nat) < 5 \<and>
   room world0 \<le> room world0 \<and>
   publish_wrapper (PublishMessage ''q1'')
     (returning (PDict [(KStr ''x'', PInt 1), (KStr ''y'', PFloat (Float ''1.5''))])) () world0 =
     (Returned PNone,
      world0\<lparr>attempts := 1,
        trace :=
          [CallWrapped, Connect True, QueueDeclare ''q1'', JsonDumps,
           BasicPublish [] ''q1''
             (JsonText (JObj [(''x'', JNum 1), (''y'', JFloat (Float ''1.5''))]))]\<rparr>) \<and>
   loads_utf8 (room world0) (JsonText (JObj [(''x'', JNum 1), (''y'', JFloat (Float ''1.5''))])) =
     Inr (PDict [(KStr ''x'', PInt 1), (KStr ''y'', PFloat (Float ''1.5''))]) \<and>
   c_logging (ConsumeMessage ''q1'') \<and>
   json_dumps (room world0)
     (send_log (PyObj ''<BlockingChannel>'') (PyObj ''<Basic.Deliver>'') (PyObj ''<BasicProperties>'')
        (PDict [(KStr ''x'', PInt 1), (KStr ''y'', PFloat (Float ''1.5''))])) =
     Inr (JObj [(''channel'', JStr ''<BlockingChannel>''),
                (''method'', JStr ''<Basic.Deliver>''),
                (''properties'', JStr ''<BasicProperties>''),
                (''body'', JObj [(''x'', JNum 1), (''y'', JFloat (Float ''1.5''))])]) \<and>
   message_handler (ConsumeMessage ''q1'') (returning PNone)
     (delivery_of (JsonText (JObj [(''x'', JNum 1), (''y'', JFloat (Float ''1.5''))]))) world0 =
     (Returned PNone,
      world0\<lparr>attempts := 1,
        trace :=
          [CallWrapped, Connect True, QueueDeclare ''logging'', JsonDumps,
           BasicPublish [] ''logging''
             (JsonText (JObj [(''channel'', JStr ''<BlockingChannel>''),
                              (''method'', JStr ''<Basic.Deliver>''),
                              (''properties'', JStr ''<BasicProperties>''),
                              (''body'', JObj [(''x'', JNum 1), (''y'', JFloat (Float ''1.5''))])])),
           CallConsumer (PDict [(KStr ''x'', PInt 1), (KStr ''y'', PFloat (Float ''1.5''))])]\<rparr>)"
proof -
  let ?v = "PDict [(KStr ''x'', PInt 1), (KStr ''y'', PFloat (Float ''1.5''))]"
  let ?j = "JObj [(''x'', JNum 1), (''y'', JFloat (Float ''1.5''))]"
  let ?d = "delivery_of (JsonText ?j)"
  let ?je = "JObj [(''channel'', JStr ''<BlockingChannel>''),
                (''method'', JStr ''<Basic.Deliver>''),
                (''properties'', JStr ''<BasicProperties>''),
                (''body'', ?j)]"
  have a: "json_native ?v" by (simp add: json_native_def)
  have a2: "json_dumps (room world0) ?v = Inr ?j" by (simp add: world0_def)
  have b: "returning ?v () = Returned ?v" by (simp add: returning_def)
  have c: "p_exchange (PublishMessage ''q1'') = []" by (simp add: PublishMessage_def)
  have r0: "\<forall>i<0. \<not> reachable world0 (attempts world0 + i)" by simp
  have r: "reachable world0 (attempts world0 + 0)" by (simp add: world0_def up_from_def)
  have k: "(0::nat) < 5" by simp
  have m: "room world0 \<le> room world0" by simp
  have lg: "c_logging (ConsumeMessage ''q1'')" by (simp add: ConsumeMessage_def)
  have e: "json_dumps (room world0)
     (send_log (PyObj ''<BlockingChannel>'') (PyObj ''<Basic.Deliver>'') (PyObj ''<BasicProperties>'')
        ?v) = Inr ?je"
    by (simp add: send_log_def world0_def)
  have e': "json_dumps (room world0) (send_log (d_channel ?d) (d_method ?d) (d_properties ?d) ?v) =
      Inr ?je"
    using e by (simp add: delivery_of_def)
  note t = publish_consume_roundtrip [where v = ?v and j = ?j and func = "returning ?v"
      and args = "()" and pub = "PublishMessage ''q1''" and w = world0 and k = 0
      and w' = world0 and cons = "ConsumeMessage ''q1''" and handler = "returning PNone"
      and d = ?d and k' = 0 and je = ?je, OF a a2 b c r0 r k m]
  have p: "publish_wrapper (PublishMessage ''q1'') (returning ?v) () world0 =
     (Returned PNone,
      world0\<lparr>attempts := 1,
        trace :=
          [CallWrapped, Connect True, QueueDeclare ''q1'', JsonDumps,
           BasicPublish [] ''q1'' (JsonText ?j)]\<rparr>)"
    using t [THEN conjunct1] by (simp add: PublishMessage_def world0_def)
  have l: "loads_utf8 (room world0) (JsonText ?j) = Inr ?v"
    using t [THEN conjunct2, THEN conjunct1] .
  have h: "message_handler (ConsumeMessage ''q1'') (returning PNone) ?d world0 =
     (Returned PNone,
      world0\<lparr>attempts := 1,
        trace :=
          [CallWrapped, Connect True, QueueDeclare ''logging'', JsonDumps,
           BasicPublish [] ''logging'' (JsonText ?je),
           CallConsumer ?v]\<rparr>)"
    using t [THEN conjunct2, THEN conjunct2, THEN conjunct2] lg r0 r k e'
    by (simp add: returning_def world0_def delivery_of_def ConsumeMessage_def)
  show ?thesis by (intro conjI) (rule a a2 b c r k m p l lg e h)+
qed

text \<open>
  Claim C6 as stated covers every value that \<^verbatim>\<open>json.dumps\<close> accepts. Four of them do not
  come back as they were. The dictionary \<^verbatim>\<open>{1: 2}\<close>: its integer key becomes the string
  \<^verbatim>\<open>"1"\<close>, and the consumer's function receives \<^verbatim>\<open>{"1": 2}\<close>, a different dictionary. The
  tuple \<^verbatim>\<open>(1, 2)\<close>: it comes back as the list \<^verbatim>\<open>[1, 2]\<close>. NaN: it comes back as NaN, which is
  not equal to NaN. And 900 lists inside one another, which the publisher's \<^verbatim>\<open>json.dumps\<close>
  can just write: a consumer with room for one level less raises RecursionError on the
  body.
\<close>

theorem publish_consume_roundtrip_counterexample:
  "json_dumps (room world0) (PDict [(KInt 1, PInt 2)]) = Inr (JObj [(''1'', JNum 2)]) \<and>
   publish_wrapper (PublishMessage ''q1'') (returning (PDict [(KInt 1, PInt 2)])) () world0 =
     (Returned PNone,
      world0\<lparr>attempts := 1,
        trace :=
          [CallWrapped, Connect True, QueueDeclare ''q1'', JsonDumps,
           BasicPublish [] ''q1'' (JsonText (JObj [(''1'', JNum 2)]))]\<rparr>) \<and>
   message_handler ((ConsumeMessage ''q1'')\<lparr>c_logging := False\<rparr>) (returning PNone)
     (delivery_of (JsonText (JObj [(''1'', JNum 2)]))) world0 =
     (Returned PNone, world0\<lparr>trace := [CallConsumer (PDict [(KStr ''1'', PInt 2)])]\<rparr>) \<and>
   PDict [(KStr ''1'', PInt 2)] \<noteq> PDict [(KInt 1, PInt 2)] \<and>
   json_dumps (room world0) (PTuple [PInt 1, PInt 2]) = Inr (JArr [JNum 1, JNum 2]) \<and>
   loads_utf8 (room world0) (JsonText (JArr [JNum 1, JNum 2])) = Inr (PList [PInt 1, PInt 2]) \<and>
   PList [PInt 1, PInt 2] \<noteq> PTuple [PInt 1, PInt 2] \<and>
   json_dumps (room world0) (PFloat NaN) = Inr (JFloat NaN) \<and>
   loads_utf8 (room world0) (JsonText (JFloat NaN)) = Inr (PFloat NaN) \<and>
   \<not> float_eq NaN NaN \<and>
   json_dumps (room world0) (nested_py 900) = Inr (nested_json 900) \<and>
   loads_utf8 (room (world0\<lparr>room := 899\<rparr>)) (JsonText (nested_json 900)) = Inl RecursionError"
proof -
  let ?v = "PDict [(KInt 1, PInt 2)]"
  let ?d = "delivery_of (JsonText (JObj [(''1'', JNum 2)]))"
  let ?quiet = "(ConsumeMessage ''q1'')\<lparr>c_logging := False\<rparr>"
  have j: "json_dumps (room world0) ?v = Inr (JObj [(''1'', JNum 2)])"
    by (simp add: world0_def str_int_1)
  have b: "returning ?v () = Returned ?v" by (simp add: returning_def)
  have c: "p_exchange (PublishMessage ''q1'') = []" by (simp add: PublishMessage_def)
  have d0: "\<forall>i<0. \<not> reachable world0 (attempts world0 + i)" by simp
  have d: "reachable world0 (attempts world0 + 0)" by (simp add: world0_def up_from_def)
  have p: "publish_wrapper (PublishMessage ''q1'') (returning ?v) () world0 =
     (Returned PNone,
      world0\<lparr>attempts := 1,
        trace :=
          [CallWrapped, Connect True, QueueDeclare ''q1'', JsonDumps,
           BasicPublish [] ''q1'' (JsonText (JObj [(''1'', JNum 2)]))]\<rparr>)"
    using publish_wrapper_ok [where func = "returning ?v" and args = "()" and v = ?v and w = world0
        and k = 0 and pub = "PublishMessage ''q1''", OF b d0 d _ c] j
    by (simp add: PublishMessage_def world0_def)
  have l: "json_loads (room world0) (JObj [(''1'', JNum 2)]) = Inr (PDict [(KStr ''1'', PInt 2)])"
    by (simp add: world0_def)
  have h: "message_handler ?quiet (returning PNone) ?d world0 =
     (Returned PNone, world0\<lparr>trace := [CallConsumer (PDict [(KStr ''1'', PInt 2)])]\<rparr>)"
    using message_handler_silent [where d = ?d and j = "JObj [(''1'', JNum 2)]"
        and cons = ?quiet and func = "returning PNone" and w = world0
        and v = "PDict [(KStr ''1'', PInt 2)]"] l
    by (simp add: returning_def world0_def delivery_of_def)
  have n: "PDict [(KStr ''1'', PInt 2)] \<noteq> PDict [(KInt 1, PInt 2)]" by simp
  have t1: "json_dumps (room world0) (PTuple [PInt 1, PInt 2]) = Inr (JArr [JNum 1, JNum 2])"
    by (simp add: world0_def)
  have t2: "loads_utf8 (room world0) (JsonText (JArr [JNum 1, JNum 2])) =
      Inr (PList [PInt 1, PInt 2])"
    by (simp add: world0_def)
  have t3: "PList [PInt 1, PInt 2] \<noteq> PTuple [PInt 1, PInt 2]" by simp
  have f1: "json_dumps (room world0) (PFloat NaN) = Inr (JFloat NaN)" by simp
  have f2: "loads_utf8 (room world0) (JsonText (JFloat NaN)) = Inr (PFloat NaN)" by simp
  have f3: "\<not> float_eq NaN NaN" by simp
  have g1: "json_dumps (room world0) (nested_py 900) = Inr (nested_json 900)"
    by (simp add: world0_def dumps_nested)
  have g2: "loads_utf8 (room (world0\<lparr>room := 899\<rparr>)) (JsonText (nested_json 900)) =
      Inl RecursionError"
    by (simp add: loads_nested_deep)
  show ?thesis by (intro conjI) (rule j p h n t1 t2 t3 f1 f2 f3 g1 g2)+
qed

section \<open>base.py: the connection, publishing, the handler\<close>

lemma check_connection_open: "connection w = Some True \<Longrightarrow> check_connection w = (Returned PNone, w)"
  by (simp add: check_connection_def andthen_def ret_def)

lemma check_connection_first:
  "connection w = None \<Longrightarrow> reachable w (attempts w) \<Longrightarrow>
   check_connection w =
     (Returned PNone,
      w\<lparr>attempts := Suc (attempts w), trace := trace w @ [Connect True], connection := Some True\<rparr>)"
  by (simp add: check_connection_def andthen_def ret_def create_global_connection_def connect_def
      emit_def)

lemma publish_message_list:
  "func args = Returned result \<Longrightarrow> check_connection (emit CallWrapped w) = (Returned u, w1) \<Longrightarrow>
   publish_message (QList names) exchange func args w = (Raised TypeError, w1)"
  by (simp add: publish_message_def andthen_def call_wrapped_def queue_declare_def)

lemma publish_message_str:
  "func args = Returned result \<Longrightarrow> check_connection (emit CallWrapped w) = (Returned u, w1) \<Longrightarrow>
   json_dumps (room w1) result = Inr j \<Longrightarrow>
   publish_message (QStr name) exchange func args w =
     (Returned PNone,
      w1\<lparr>trace := trace w1 @ [QueueDeclare name, JsonDumps, BasicPublish exchange name (JsonText j)]\<rparr>)"
  by (simp add: publish_message_def andthen_def call_wrapped_def queue_declare_def dumps_def
      basic_publish_def emit_def)

lemma consume_message_handler_returns:
  "consume_message_handler cfg func channel meth properties body w = (Returned x, w') \<Longrightarrow> x = PNone"
  by (auto simp: consume_message_handler_def andthen_def ret_def
      split: option.splits if_splits prod.splits outcome.splits)

lemma handler_outcome:
  "(case consume_message_handler cfg func channel meth properties body w of
      (Returned x, w') \<Rightarrow> ret PNone w'
    | (Raised e, w') \<Rightarrow> (Raised e, w')
    | (Blocked, w') \<Rightarrow> (Blocked, w')) =
   consume_message_handler cfg func channel meth properties body w"
  using consume_message_handler_returns [of cfg func channel meth properties body w]
  by (auto simp: ret_def split: prod.splits outcome.splits)

text \<open>The scenario of the spec: \<^verbatim>\<open>{"x": 1}\<close> waits in \<^verbatim>\<open>q1\<close>; the one-shot consumer of
  \<^verbatim>\<open>q1\<close> with \<^verbatim>\<open>publish_queues='q2'\<close> and a function that returns \<^verbatim>\<open>{"y": 2}\<close> publishes
  that value to \<^verbatim>\<open>q2\<close>.\<close>

lemma one_shot_example_eval:
  "consume_message (one_shot ''q1'' (Some (QStr ''q2''))) (returning (PDict [(KStr ''y'', PInt 2)])) []
     (one_waiting ''q1'' (JsonText (JObj [(''x'', JNum 1)]))) =
     (Returned PNone,
      world0\<lparr>trace := [Connect True, QueueDeclare ''q1'', BasicGet ''q1'', CallWrapped,
          QueueDeclare ''q2'', JsonDumps, BasicPublish [] ''q2'' (JsonText (JObj [(''y'', JNum 2)]))],
        attempts := 1,
        waiting := ((waiting world0)(''q1'' := [(PyObj ''<Basic.GetOk>'', PyObj ''<BasicProperties>'',
          JsonText (JObj [(''x'', JNum 1)]))]))(''q1'' := []),
        connection := Some True\<rparr>)"
  by (simp add: consume_message_def consume_message_handler_def publish_message_def
      check_connection_def create_global_connection_def connect_def andthen_def ret_def
      queue_declare_def basic_get_def basic_publish_def dumps_def emit_def decode_bytes_def decode_utf8_def
      call_wrapped_def one_shot_def one_waiting_def world0_def up_from_def returning_def)

section \<open>Forwarding to several queues (claim C5)\<close>

text \<open>
  Claim C5 says that with \<^verbatim>\<open>publish_queues\<close> set to one queue name or to a sequence of
  names, the value the wrapped function returns for the decoded body goes to each named
  queue. \<^verbatim>\<open>consume_message\<close> of \<^verbatim>\<open>base.py\<close> documents both forms
  (\<^verbatim>\<open>Union[str, List[str]]\<close>, "the queue(s) to send messages to") and handles the list as if
  it were one name: it is passed to \<^verbatim>\<open>publish_message\<close> as the queue, and pika refuses it.
  For every list of names that is not empty, a body that decodes and a function that
  returns, the handler calls the function, checks the connection and raises TypeError;
  nothing is published. (\<^verbatim>\<open>ConsumeMessage\<close> of \<^verbatim>\<open>blocking.py\<close> has no such parameter. With one
  name the value is published to that queue: \<open>publish_message_str\<close>.)
\<close>

theorem forward_to_queue_list_raises:
  assumes "cm_publish_queues cfg = Some (QList names)" "names \<noteq> []"
    "loads_bytes (room w) body = Inr message" "func message = Returned result"
    "check_connection (emit CallWrapped w) = (Returned u, w1)"
  shows "consume_message_handler cfg func channel meth properties body w = (Raised TypeError, w1)"
  using assms publish_message_list [of func message result w u w1 names "cm_exchange cfg"]
  by (simp add: consume_message_handler_def andthen_def decode_bytes_def)

text \<open>The input: \<^verbatim>\<open>publish_queues=['q2', 'q3']\<close>, the message \<^verbatim>\<open>{"x": 1}\<close>, a function that
  returns \<^verbatim>\<open>{"y": 2}\<close>; first the handler alone on an open connection, then the whole
  one-shot call.\<close>

theorem forward_to_queue_list_raises_witness:
  "cm_publish_queues (one_shot ''q1'' (Some (QList [''q2'', ''q3'']))) = Some (QList [''q2'', ''q3'']) \<and>
   [''q2'', ''q3''] \<noteq> [] \<and>
   loads_bytes (room (world0\<lparr>connection := Some True\<rparr>)) (JsonText (JObj [(''x'', JNum 1)])) =
     Inr (PDict [(KStr ''x'', PInt 1)]) \<and>
   returning (PDict [(KStr ''y'', PInt 2)]) (PDict [(KStr ''x'', PInt 1)]) =
     Returned (PDict [(KStr ''y'', PInt 2)]) \<and>
   check_connection (emit CallWrapped (world0\<lparr>connection := Some True\<rparr>)) =
     (Returned PNone, world0\<lparr>trace := [CallWrapped], connection := Some True\<rparr>) \<and>
   consume_message_handler (one_shot ''q1'' (Some (QList [''q2'', ''q3''])))
     (returning (PDict [(KStr ''y'', PInt 2)])) None None None
     (JsonText (JObj [(''x'', JNum 1)])) (world0\<lparr>connection := Some True\<rparr>) =
     (Raised TypeError, world0\<lparr>trace := [CallWrapped], connection := Some True\<rparr>) \<and>
   fst (consume_message (one_shot ''q1'' (Some (QList [''q2'', ''q3''])))
     (returning (PDict [(KStr ''y'', PInt 2)])) []
     (one_waiting ''q1'' (JsonText (JObj [(''x'', JNum 1)])))) = Raised TypeError \<and>
   trace (snd (consume_message (one_shot ''q1'' (Some (QList [''q2'', ''q3''])))
     (returning (PDict [(KStr ''y'', PInt 2)])) []
     (one_waiting ''q1'' (JsonText (JObj [(''x'', JNum 1)]))))) =
     [Connect True, QueueDeclare ''q1'', BasicGet ''q1'', CallWrapped]"
proof -
  let ?cfg = "one_shot ''q1'' (Some (QList [''q2'', ''q3'']))"
  let ?f = "returning (PDict [(KStr ''y'', PInt 2)])"
  let ?w = "world0\<lparr>connection := Some True\<rparr>"
  let ?w1 = "world0\<lparr>trace := [CallWrapped], connection := Some True\<rparr>"
  let ?wq = "one_waiting ''q1'' (JsonText (JObj [(''x'', JNum 1)]))"
  have a: "cm_publish_queues ?cfg = Some (QList [''q2'', ''q3''])" by (simp add: one_shot_def)
  have b: "[''q2'', ''q3''] \<noteq> []" by simp
  have c: "loads_bytes (room ?w) (JsonText (JObj [(''x'', JNum 1)])) =
      Inr (PDict [(KStr ''x'', PInt 1)])"
    by (simp add: world0_def)
  have d: "?f (PDict [(KStr ''x'', PInt 1)]) = Returned (PDict [(KStr ''y'', PInt 2)])"
    by (simp add: returning_def)
  have e: "check_connection (emit CallWrapped ?w) = (Returned PNone, ?w1)"
    using check_connection_open [of "emit CallWrapped ?w"] by (simp add: emit_def world0_def)
  note h = forward_to_queue_list_raises [where cfg = ?cfg and names = "[''q2'', ''q3'']"
      and body = "JsonText (JObj [(''x'', JNum 1)])" and message = "PDict [(KStr ''x'', PInt 1)]"
      and func = ?f and result = "PDict [(KStr ''y'', PInt 2)]" and w = ?w and u = PNone
      and ?w1.0 = ?w1 and channel = None and meth = None and properties = None, OF a b c d e]
  have f: "consume_message ?cfg ?f [] ?wq =
     (Raised TypeError,
      world0\<lparr>trace := [Connect True, QueueDeclare ''q1'', BasicGet ''q1'', CallWrapped],
        attempts := 1,
        waiting := ((waiting world0)(''q1'' := [(PyObj ''<Basic.GetOk>'', PyObj ''<BasicProperties>'',
          JsonText (JObj [(''x'', JNum 1)]))]))(''q1'' := []),
        connection := Some True\<rparr>)"
    by (simp add: consume_message_def consume_message_handler_def publish_message_def
        check_connection_def create_global_connection_def connect_def andthen_def ret_def
        queue_declare_def basic_get_def emit_def decode_bytes_def decode_utf8_def call_wrapped_def
        one_shot_def one_waiting_def world0_def up_from_def returning_def)
  have f1: "fst (consume_message ?cfg ?f [] ?wq) = Raised TypeError" by (simp add: f)
  have f2: "trace (snd (consume_message ?cfg ?f [] ?wq)) =
     [Connect True, QueueDeclare ''q1'', BasicGet ''q1'', CallWrapped]" by (simp add: f)
  show ?thesis by (intro conjI) (rule a b c d e h f1 f2)+
qed

section \<open>The one-shot fetch (claim C7)\<close>

text \<open>
  Claim C7, as amended. With \<^verbatim>\<open>production_ready\<close> false and the connection in place, the call
  makes one \<^verbatim>\<open>basic_get\<close>. If the queue is empty, or if the message taken from it has an
  empty body, the wrapped function is not called and the call returns \<^verbatim>\<open>None\<close>. If the
  message has a body that is not empty, the call is one run of the handler on that body: it
  returns or raises as the handler does.
\<close>

theorem one_shot_fetch:
  assumes "\<not> cm_production_ready cfg" "check_connection w = (Returned u, w1)"
  shows
    "(waiting w1 (cm_consume_queue cfg) = [] \<longrightarrow>
        consume_message cfg func [] w =
          (Returned PNone,
           w1\<lparr>trace := trace w1 @
             [QueueDeclare (cm_consume_queue cfg), BasicGet (cm_consume_queue cfg)]\<rparr>)) \<and>
     (waiting w1 (cm_consume_queue cfg) = (m, p, EmptyBytes) # rest \<longrightarrow>
        consume_message cfg func [] w =
          (Returned PNone,
           w1\<lparr>waiting := (waiting w1)(cm_consume_queue cfg := rest),
              trace := trace w1 @
                [QueueDeclare (cm_consume_queue cfg), BasicGet (cm_consume_queue cfg)]\<rparr>)) \<and>
     (waiting w1 (cm_consume_queue cfg) = (m, p, body) # rest \<and> nonempty body \<longrightarrow>
        consume_message cfg func [] w =
          consume_message_handler cfg func None None None body
            (w1\<lparr>waiting := (waiting w1)(cm_consume_queue cfg := rest),
               trace := trace w1 @
                 [QueueDeclare (cm_consume_queue cfg), BasicGet (cm_consume_queue cfg)]\<rparr>))"
proof -
  let ?q = "cm_consume_queue cfg"
  let ?w2 = "w1\<lparr>waiting := (waiting w1)(?q := rest),
               trace := trace w1 @ [QueueDeclare ?q, BasicGet ?q]\<rparr>"
  have a: "waiting w1 ?q = [] \<Longrightarrow> consume_message cfg func [] w =
      (Returned PNone, w1\<lparr>trace := trace w1 @ [QueueDeclare ?q, BasicGet ?q]\<rparr>)"
    using assms
    by (simp add: consume_message_def andthen_def queue_declare_def basic_get_def emit_def ret_def)
  have b: "waiting w1 ?q = (m, p, EmptyBytes) # rest \<Longrightarrow>
      consume_message cfg func [] w = (Returned PNone, ?w2)"
    using assms
    by (simp add: consume_message_def andthen_def queue_declare_def basic_get_def emit_def ret_def)
  have c: "waiting w1 ?q = (m, p, body) # rest \<Longrightarrow> nonempty body \<Longrightarrow>
      consume_message cfg func [] w = consume_message_handler cfg func None None None body ?w2"
    using assms
    by (simp add: consume_message_def andthen_def queue_declare_def basic_get_def emit_def
        handler_outcome)
  from a b c show ?thesis by blast
qed

text \<open>An empty queue, and the scenario above.\<close>

theorem one_shot_fetch_witness:
  "\<not> cm_production_ready (one_shot ''q1'' (Some (QStr ''q2''))) \<and>
   check_connection world0 =
     (Returned PNone, world0\<lparr>attempts := 1, trace := [Connect True], connection := Some True\<rparr>) \<and>
   waiting (world0\<lparr>attempts := 1, trace := [Connect True], connection := Some True\<rparr>) ''q1'' = [] \<and>
   consume_message (one_shot ''q1'' (Some (QStr ''q2''))) (returning (PDict [(KStr ''y'', PInt 2)]))
     [] world0 =
     (Returned PNone,
      world0\<lparr>attempts := 1, trace := [Connect True, QueueDeclare ''q1'', BasicGet ''q1''],
        connection := Some True\<rparr>) \<and>
   check_connection (one_waiting ''q1'' (JsonText (JObj [(''x'', JNum 1)]))) =
     (Returned PNone,
      (one_waiting ''q1'' (JsonText (JObj [(''x'', JNum 1)])))
        \<lparr>attempts := 1, trace := [Connect True], connection := Some True\<rparr>) \<and>
   waiting ((one_waiting ''q1'' (JsonText (JObj [(''x'', JNum 1)])))
        \<lparr>attempts := 1, trace := [Connect True], connection := Some True\<rparr>) ''q1'' =
     (PyObj ''<Basic.GetOk>'', PyObj ''<BasicProperties>'', JsonText (JObj [(''x'', JNum 1)])) # [] \<and>
   nonempty (JsonText (JObj [(''x'', JNum 1)])) \<and>
   consume_message (one_shot ''q1'' (Some (QStr ''q2''))) (returning (PDict [(KStr ''y'', PInt 2)]))
     [] (one_waiting ''q1'' (JsonText (JObj [(''x'', JNum 1)]))) =
     consume_message_handler (one_shot ''q1'' (Some (QStr ''q2'')))
       (returning (PDict [(KStr ''y'', PInt 2)])) None None None (JsonText (JObj [(''x'', JNum 1)]))
       ((one_waiting ''q1'' (JsonText (JObj [(''x'', JNum 1)])))
          \<lparr>attempts := 1, trace := [Connect True, QueueDeclare ''q1'', BasicGet ''q1''],
           waiting := (waiting (one_waiting ''q1'' (JsonText (JObj [(''x'', JNum 1)]))))(''q1'' := []),
           connection := Some True\<rparr>) \<and>
   fst (consume_message (one_shot ''q1'' (Some (QStr ''q2'')))
     (returning (PDict [(KStr ''y'', PInt 2)])) []
     (one_waiting ''q1'' (JsonText (JObj [(''x'', JNum 1)])))) = Returned PNone \<and>
   trace (snd (consume_message (one_shot ''q1'' (Some (QStr ''q2'')))
     (returning (PDict [(KStr ''y'', PInt 2)])) []
     (one_waiting ''q1'' (JsonText (JObj [(''x'', JNum 1)]))))) =
     [Connect True, QueueDeclare ''q1'', BasicGet ''q1'', CallWrapped,
      QueueDeclare ''q2'', JsonDumps, BasicPublish [] ''q2'' (JsonText (JObj [(''y'', JNum 2)]))]"
proof -
  let ?cfg = "one_shot ''q1'' (Some (QStr ''q2''))"
  let ?f = "returning (PDict [(KStr ''y'', PInt 2)])"
  let ?b = "JsonText (JObj [(''x'', JNum 1)])"
  let ?m = "(PyObj ''<Basic.GetOk>'', PyObj ''<BasicProperties>'', ?b)"
  let ?wa = "world0"
  let ?wa1 = "world0\<lparr>attempts := 1, trace := [Connect True], connection := Some True\<rparr>"
  let ?wc = "one_waiting ''q1'' ?b"
  let ?wc1 = "(one_waiting ''q1'' ?b)\<lparr>attempts := 1, trace := [Connect True], connection := Some True\<rparr>"
  have p: "\<not> cm_production_ready ?cfg" by (simp add: one_shot_def)
  have q: "cm_consume_queue ?cfg = ''q1''" by (simp add: one_shot_def)
  have ca: "check_connection ?wa = (Returned PNone, ?wa1)"
    using check_connection_first [of world0] by (simp add: world0_def up_from_def)
  have cc: "check_connection ?wc = (Returned PNone, ?wc1)"
    using check_connection_first [of ?wc] by (simp add: world0_def up_from_def one_waiting_def)
  have ea: "waiting ?wa1 ''q1'' = []" by (simp add: world0_def)
  have ec: "waiting ?wc1 ''q1'' = ?m # []" by (simp add: one_waiting_def)
  have ne: "nonempty ?b" by simp
  note ta = one_shot_fetch [where cfg = ?cfg and w = ?wa and u = PNone and ?w1.0 = ?wa1
      and func = ?f, OF p ca, THEN conjunct1, unfolded q, rule_format, OF ea]
  note tc = one_shot_fetch [where cfg = ?cfg and w = ?wc and u = PNone and ?w1.0 = ?wc1
      and func = ?f and m = "PyObj ''<Basic.GetOk>''" and p = "PyObj ''<BasicProperties>''"
      and body = ?b and rest = "[]", OF p cc, THEN conjunct2, THEN conjunct2, unfolded q,
      rule_format, OF conjI [OF ec ne]]
  have ra: "consume_message ?cfg ?f [] world0 =
     (Returned PNone,
      world0\<lparr>attempts := 1, trace := [Connect True, QueueDeclare ''q1'', BasicGet ''q1''],
        connection := Some True\<rparr>)"
    using ta by simp
  have rc: "consume_message ?cfg ?f [] ?wc =
     consume_message_handler ?cfg ?f None None None ?b
       (?wc\<lparr>attempts := 1, trace := [Connect True, QueueDeclare ''q1'', BasicGet ''q1''],
           waiting := (waiting ?wc)(''q1'' := []), connection := Some True\<rparr>)"
    using tc by (simp add: one_waiting_def world0_def)
  have f1: "fst (consume_message ?cfg ?f [] ?wc) = Returned PNone"
    by (simp add: one_shot_example_eval)
  have f2: "trace (snd (consume_message ?cfg ?f [] ?wc)) =
     [Connect True, QueueDeclare ''q1'', BasicGet ''q1'', CallWrapped,
      QueueDeclare ''q2'', JsonDumps, BasicPublish [] ''q2'' (JsonText (JObj [(''y'', JNum 2)]))]"
    by (simp add: one_shot_example_eval)
  show ?thesis by (intro conjI) (rule p ca ea ra cc ec ne rc f1 f2)+
qed

text \<open>
  Claim C7 as stated runs the handler on every message that is available. A message with
  an empty body is available and is taken off the queue, but \<^verbatim>\<open>if body:\<close> is false for it:
  the call returns \<^verbatim>\<open>None\<close> without the handler, which would have raised on that body.
\<close>

theorem one_shot_fetch_counterexample:
  "waiting (one_waiting ''q1'' EmptyBytes) ''q1'' =
     [(PyObj ''<Basic.GetOk>'', PyObj ''<BasicProperties>'', EmptyBytes)] \<and>
   fst (consume_message (one_shot ''q1'' (Some (QStr ''q2'')))
     (returning (PDict [(KStr ''y'', PInt 2)])) [] (one_waiting ''q1'' EmptyBytes)) =
     Returned PNone \<and>
   trace (snd (consume_message (one_shot ''q1'' (Some (QStr ''q2'')))
     (returning (PDict [(KStr ''y'', PInt 2)])) [] (one_waiting ''q1'' EmptyBytes))) =
     [Connect True, QueueDeclare ''q1'', BasicGet ''q1''] \<and>
   waiting (snd (consume_message (one_shot ''q1'' (Some (QStr ''q2'')))
     (returning (PDict [(KStr ''y'', PInt 2)])) [] (one_waiting ''q1'' EmptyBytes))) ''q1'' = [] \<and>
   fst (consume_message_handler (one_shot ''q1'' (Some (QStr ''q2'')))
     (returning (PDict [(KStr ''y'', PInt 2)])) None None None EmptyBytes
     (snd (consume_message (one_shot ''q1'' (Some (QStr ''q2'')))
       (returning (PDict [(KStr ''y'', PInt 2)])) [] (one_waiting ''q1'' EmptyBytes)))) =
     Raised ValueError"
proof -
  have a: "consume_message (one_shot ''q1'' (Some (QStr ''q2'')))
     (returning (PDict [(KStr ''y'', PInt 2)])) [] (one_waiting ''q1'' EmptyBytes) =
     (Returned PNone,
      world0\<lparr>trace := [Connect True, QueueDeclare ''q1'', BasicGet ''q1''],
        attempts := 1,
        waiting := ((waiting world0)(''q1'' := [(PyObj ''<Basic.GetOk>'', PyObj ''<BasicProperties>'',
          EmptyBytes)]))(''q1'' := []),
        connection := Some True\<rparr>)"
    by (simp add: consume_message_def check_connection_def create_global_connection_def
        connect_def andthen_def ret_def queue_declare_def basic_get_def emit_def
        one_shot_def one_waiting_def world0_def up_from_def)
  have b: "\<And>w. consume_message_handler (one_shot ''q1'' (Some (QStr ''q2'')))
     (returning (PDict [(KStr ''y'', PInt 2)])) None None None EmptyBytes w = (Raised ValueError, w)"
    by (simp add: consume_message_handler_def andthen_def decode_bytes_def decode_utf8_def one_shot_def)
  show ?thesis by (simp add: a b) (simp add: one_waiting_def)
qed

section \<open>message_pipeline (claim C9)\<close>

text \<open>
  Claim C9 says that the wrapped function of \<^verbatim>\<open>message_pipeline\<close>, called with a message
  dictionary, behaves as the consumer with \<^verbatim>\<open>publish_queues=publish_queue\<close> used directly.
  The code calls the consumer's \<^verbatim>\<open>prepare_channel\<close> with the message dictionary, and
  \<^verbatim>\<open>prepare_channel\<close> takes no argument: every call raises TypeError before anything is
  asked of the broker.
\<close>

theorem message_pipeline_raises:
  "message_pipeline consume_queue publish_queue exchange production_ready func message_dict w =
     (Raised TypeError, w)"
  by (simp add: message_pipeline_def consume_message_def)

text \<open>The pipeline from \<^verbatim>\<open>q1\<close> to \<^verbatim>\<open>q2\<close> raises where the consumer used directly
  returns.\<close>

theorem message_pipeline_raises_witness:
  "message_pipeline ''q1'' ''q2'' [] False (returning (PDict [(KStr ''y'', PInt 2)]))
     (PDict [(KStr ''x'', PInt 1)]) (one_waiting ''q1'' (JsonText (JObj [(''x'', JNum 1)]))) =
     (Raised TypeError, one_waiting ''q1'' (JsonText (JObj [(''x'', JNum 1)]))) \<and>
   fst (consume_message (one_shot ''q1'' (Some (QStr ''q2'')))
     (returning (PDict [(KStr ''y'', PInt 2)])) []
     (one_waiting ''q1'' (JsonText (JObj [(''x'', JNum 1)])))) = Returned PNone"
  using message_pipeline_raises [of "''q1''" "''q2''" "[]" False
      "returning (PDict [(KStr ''y'', PInt 2)])" "PDict [(KStr ''x'', PInt 1)]"
      "one_waiting ''q1'' (JsonText (JObj [(''x'', JNum 1)]))"]
    one_shot_example_eval
  by simp

section \<open>How listening ends (claim C8)\<close>

lemma consume_attempt_listen:
  "consume_setup cons w = (Returned u, w1) \<Longrightarrow>
   consume_attempt cons func w = consume_listen cons func w1"
  by (simp add: consume_attempt_def andthen_def)

lemma consume_attempt_unreachable:
  "\<not> reachable w (attempts w) \<Longrightarrow>
   consume_attempt cons func w =
     (Raised AMQPConnectionError,
      w\<lparr>attempts := Suc (attempts w), trace := trace w @ [Connect False]\<rparr>)"
  by (simp add: consume_attempt_def consume_setup_def andthen_def
      create_connection_and_channel_def connect_def emit_def)

lemma retry_left_unreachable:
  "\<forall>i<Suc n. \<not> reachable w (attempts w + i) \<Longrightarrow>
   retry_left n (consume_attempt cons func) w =
     (Raised AMQPConnectionError,
      w\<lparr>attempts := attempts w + Suc n, trace := trace w @ replicate (Suc n) (Connect False)\<rparr>)"
proof (induction n arbitrary: w)
  case 0
  then show ?case using consume_attempt_unreachable [of w cons func] by simp
next
  case (Suc n)
  let ?w1 = "w\<lparr>attempts := Suc (attempts w), trace := trace w @ [Connect False]\<rparr>"
  have down: "\<not> reachable w (attempts w)" using Suc.prems by force
  have a: "consume_attempt cons func w = (Raised AMQPConnectionError, ?w1)"
    using consume_attempt_unreachable [of w cons func] down by simp
  have later: "\<forall>i<Suc n. \<not> reachable ?w1 (attempts ?w1 + i)"
  proof (intro allI impI)
    fix i assume "i < Suc n"
    then have "Suc i < Suc (Suc n)" by simp
    with Suc.prems have "\<not> reachable w (attempts w + Suc i)" by blast
    then show "\<not> reachable ?w1 (attempts ?w1 + i)" by simp
  qed
  have "retry_left n (consume_attempt cons func) ?w1 =
     (Raised AMQPConnectionError,
      ?w1\<lparr>attempts := attempts ?w1 + Suc n,
        trace := trace ?w1 @ replicate (Suc n) (Connect False)\<rparr>)"
    using later by (rule Suc.IH)
  then show ?case using a by (simp add: replicate_append_same)
qed

text \<open>
  Claim C8, as amended. Once \<^verbatim>\<open>ConsumeMessage\<close> is set up and listening, the broker closing
  the connection and the operator's interrupt are both swallowed and the call returns
  \<^verbatim>\<open>None\<close> (after \<^verbatim>\<open>stop_consuming\<close> for the interrupt). Any other exception that leaves the
  listening and is not a connection error reaches the caller as it is: a decoding error,
  but also whatever the wrapped function raises. A broker that is out of reach at each of
  the five attempts makes the call raise the connection error.
\<close>

theorem listening_ends:
  "(consume_setup cons w = (Returned u, w1) \<and>
    start_consuming (message_handler cons func) w1 = (Raised ConnectionClosedByBroker, w2) \<longrightarrow>
      prepare_channel cons func w = (Returned PNone, w2)) \<and>
   (consume_setup cons w = (Returned u, w1) \<and>
    start_consuming (message_handler cons func) w1 = (Raised KeyboardInterrupt, w2) \<longrightarrow>
      prepare_channel cons func w = (Returned PNone, emit StopConsuming w2)) \<and>
   (consume_setup cons w = (Returned u, w1) \<and>
    start_consuming (message_handler cons func) w1 = (Raised e, w2) \<and>
    \<not> is_connection_error e \<and> e \<noteq> KeyboardInterrupt \<longrightarrow>
      prepare_channel cons func w = (Raised e, w2)) \<and>
   ((\<forall>i<5. \<not> reachable w (attempts w + i)) \<longrightarrow>
      prepare_channel cons func w =
        (Raised AMQPConnectionError,
         w\<lparr>attempts := attempts w + 5, trace := trace w @ replicate 5 (Connect False)\<rparr>))"
proof (intro conjI impI)
  assume h: "consume_setup cons w = (Returned u, w1) \<and>
    start_consuming (message_handler cons func) w1 = (Raised ConnectionClosedByBroker, w2)"
  then have "consume_attempt cons func w = (Returned PNone, w2)"
    by (simp add: consume_attempt_listen [of cons w u w1] consume_listen_def)
  then show "prepare_channel cons func w = (Returned PNone, w2)"
    by (simp add: prepare_channel_def retry_def retry_left_final)
next
  assume h: "consume_setup cons w = (Returned u, w1) \<and>
    start_consuming (message_handler cons func) w1 = (Raised KeyboardInterrupt, w2)"
  then have "consume_attempt cons func w = (Returned PNone, emit StopConsuming w2)"
    by (simp add: consume_attempt_listen [of cons w u w1] consume_listen_def stop_consuming_def)
  then show "prepare_channel cons func w = (Returned PNone, emit StopConsuming w2)"
    by (simp add: prepare_channel_def retry_def retry_left_final)
next
  assume h: "consume_setup cons w = (Returned u, w1) \<and>
    start_consuming (message_handler cons func) w1 = (Raised e, w2) \<and>
    \<not> is_connection_error e \<and> e \<noteq> KeyboardInterrupt"
  then have "e \<noteq> ConnectionClosedByBroker" by auto
  with h have "consume_attempt cons func w = (Raised e, w2)"
    by (simp add: consume_attempt_listen [of cons w u w1] consume_listen_def)
  with h show "prepare_channel cons func w = (Raised e, w2)"
    by (simp add: prepare_channel_def retry_def retry_left_final)
next
  assume "\<forall>i<5. \<not> reachable w (attempts w + i)"
  then have "\<forall>i<Suc 4. \<not> reachable w (attempts w + i)" by (simp add: eval_nat_numeral)
  from retry_left_unreachable [OF this, of cons func]
  show "prepare_channel cons func w =
        (Raised AMQPConnectionError,
         w\<lparr>attempts := attempts w + 5, trace := trace w @ replicate 5 (Connect False)\<rparr>)"
    by (simp add: prepare_channel_def retry_def max_attempts_def eval_nat_numeral)
qed

text \<open>A consumer of \<^verbatim>\<open>q1\<close> without logging: a message and then the broker closing the
  connection, an interrupt, a body that is not JSON, a broker out of reach five times.\<close>

theorem listening_ends_witness:
  "consume_setup ((ConsumeMessage ''q1'')\<lparr>c_logging := False\<rparr>)
     (world0\<lparr>signals := [Deliver (delivery_of (JsonText (JObj [(''x'', JNum 1)]))),
                           Throw ConnectionClosedByBroker]\<rparr>) =
     (Returned PNone,
      world0\<lparr>signals := [Deliver (delivery_of (JsonText (JObj [(''x'', JNum 1)]))),
                           Throw ConnectionClosedByBroker],
             attempts := 1,
             trace := [Connect True, QueueDeclare ''q1'', BasicConsume ''q1'']\<rparr>) \<and>
   start_consuming (message_handler ((ConsumeMessage ''q1'')\<lparr>c_logging := False\<rparr>) (returning PNone))
     (world0\<lparr>signals := [Deliver (delivery_of (JsonText (JObj [(''x'', JNum 1)]))),
                           Throw ConnectionClosedByBroker],
             attempts := 1,
             trace := [Connect True, QueueDeclare ''q1'', BasicConsume ''q1'']\<rparr>) =
     (Raised ConnectionClosedByBroker,
      world0\<lparr>attempts := 1,
             trace := [Connect True, QueueDeclare ''q1'', BasicConsume ''q1'', StartConsuming,
                       CallConsumer (PDict [(KStr ''x'', PInt 1)])]\<rparr>) \<and>
   prepare_channel ((ConsumeMessage ''q1'')\<lparr>c_logging := False\<rparr>) (returning PNone)
     (world0\<lparr>signals := [Deliver (delivery_of (JsonText (JObj [(''x'', JNum 1)]))),
                           Throw ConnectionClosedByBroker]\<rparr>) =
     (Returned PNone,
      world0\<lparr>attempts := 1,
             trace := [Connect True, QueueDeclare ''q1'', BasicConsume ''q1'', StartConsuming,
                       CallConsumer (PDict [(KStr ''x'', PInt 1)])]\<rparr>) \<and>
   prepare_channel ((ConsumeMessage ''q1'')\<lparr>c_logging := False\<rparr>) (returning PNone)
     (world0\<lparr>signals := [Throw KeyboardInterrupt]\<rparr>) =
     (Returned PNone,
      world0\<lparr>attempts := 1,
             trace := [Connect True, QueueDeclare ''q1'', BasicConsume ''q1'', StartConsuming,
                       StopConsuming]\<rparr>) \<and>
   \<not> is_connection_error ValueError \<and> ValueError \<noteq> KeyboardInterrupt \<and>
   prepare_channel ((ConsumeMessage ''q1'')\<lparr>c_logging := False\<rparr>) (returning PNone)
     (world0\<lparr>signals := [Deliver (delivery_of OtherBytes)]\<rparr>) =
     (Raised ValueError,
      world0\<lparr>attempts := 1,
             trace := [Connect True, QueueDeclare ''q1'', BasicConsume ''q1'', StartConsuming]\<rparr>) \<and>
   \<not> reachable (world0\<lparr>reachable := up_from 5\<rparr>) 4 \<and>
   prepare_channel ((ConsumeMessage ''q1'')\<lparr>c_logging := False\<rparr>) (returning PNone)
     (world0\<lparr>reachable := up_from 5\<rparr>) =
     (Raised AMQPConnectionError,
      world0\<lparr>reachable := up_from 5, attempts := 5, trace := replicate 5 (Connect False)\<rparr>)"
proof -
  let ?cons = "(ConsumeMessage ''q1'')\<lparr>c_logging := False\<rparr>"
  let ?f = "returning PNone :: pyval \<Rightarrow> pyval outcome"
  let ?prep = "[Connect True, QueueDeclare ''q1'', BasicConsume ''q1'']"
  note defs = consume_setup_def start_consuming_def message_handler_def andthen_def ret_def
    create_connection_and_channel_def connect_def queue_declare_def basic_consume_def decode_bytes_def decode_utf8_def
    call_consumer_def emit_def ConsumeMessage_def delivery_of_def returning_def world0_def
    up_from_def
  let ?sa = "[Deliver (delivery_of (JsonText (JObj [(''x'', JNum 1)]))), Throw ConnectionClosedByBroker]"
  let ?wa = "world0\<lparr>signals := ?sa\<rparr>"
  let ?wa1 = "world0\<lparr>signals := ?sa, attempts := 1, trace := ?prep\<rparr>"
  let ?wa2 = "world0\<lparr>attempts := 1,
    trace := ?prep @ [StartConsuming, CallConsumer (PDict [(KStr ''x'', PInt 1)])]\<rparr>"
  have a1: "consume_setup ?cons ?wa = (Returned PNone, ?wa1)" by (simp add: defs)
  have a2: "start_consuming (message_handler ?cons ?f) ?wa1 = (Raised ConnectionClosedByBroker, ?wa2)"
    by (simp add: defs)
  have a3: "prepare_channel ?cons ?f ?wa = (Returned PNone, ?wa2)"
    using listening_ends [where cons = ?cons and w = ?wa and u = PNone and ?w1.0 = ?wa1
        and func = ?f and ?w2.0 = ?wa2, THEN conjunct1] a1 a2 by blast
  let ?wb = "world0\<lparr>signals := [Throw KeyboardInterrupt]\<rparr>"
  let ?wb1 = "world0\<lparr>signals := [Throw KeyboardInterrupt], attempts := 1, trace := ?prep\<rparr>"
  let ?wb2 = "world0\<lparr>attempts := 1, trace := ?prep @ [StartConsuming]\<rparr>"
  have b1: "consume_setup ?cons ?wb = (Returned PNone, ?wb1)" by (simp add: defs)
  have b2: "start_consuming (message_handler ?cons ?f) ?wb1 = (Raised KeyboardInterrupt, ?wb2)"
    by (simp add: defs)
  have b3: "prepare_channel ?cons ?f ?wb = (Returned PNone, emit StopConsuming ?wb2)"
    using listening_ends [where cons = ?cons and w = ?wb and u = PNone and ?w1.0 = ?wb1
        and func = ?f and ?w2.0 = ?wb2, THEN conjunct2, THEN conjunct1] b1 b2 by blast
  let ?wc = "world0\<lparr>signals := [Deliver (delivery_of OtherBytes)]\<rparr>"
  let ?wc1 = "world0\<lparr>signals := [Deliver (delivery_of OtherBytes)], attempts := 1, trace := ?prep\<rparr>"
  let ?wc2 = "world0\<lparr>attempts := 1, trace := ?prep @ [StartConsuming]\<rparr>"
  have c1: "consume_setup ?cons ?wc = (Returned PNone, ?wc1)" by (simp add: defs)
  have c2: "start_consuming (message_handler ?cons ?f) ?wc1 = (Raised ValueError, ?wc2)"
    by (simp add: defs)
  have c0: "\<not> is_connection_error ValueError \<and> ValueError \<noteq> KeyboardInterrupt" by simp
  have c3: "prepare_channel ?cons ?f ?wc = (Raised ValueError, ?wc2)"
    using listening_ends [where cons = ?cons and w = ?wc and u = PNone and ?w1.0 = ?wc1
        and func = ?f and ?w2.0 = ?wc2 and e = ValueError,
        THEN conjunct2, THEN conjunct2, THEN conjunct1] c1 c2 c0 by blast
  let ?wd = "world0\<lparr>reachable := up_from 5\<rparr>"
  have d1: "\<forall>i<5. \<not> reachable ?wd (attempts ?wd + i)" by (simp add: world0_def up_from_def)
  have d2: "\<not> reachable ?wd 4" by (simp add: up_from_def)
  have d3: "prepare_channel ?cons ?f ?wd =
      (Raised AMQPConnectionError,
       ?wd\<lparr>attempts := attempts ?wd + 5, trace := trace ?wd @ replicate 5 (Connect False)\<rparr>)"
    using listening_ends [where cons = ?cons and w = ?wd and func = ?f,
        THEN conjunct2, THEN conjunct2, THEN conjunct2] d1 by blast
  show ?thesis
    using a1 a2 a3 b3 c0 c3 d2 d3 by (simp add: emit_def world0_def)
qed

text \<open>
  Claim C8 as stated lets only a connection error after the retries and a serialisation
  error reach the caller. A wrapped function that raises \<^verbatim>\<open>KeyError\<close> on a delivered message
  makes the call raise that \<^verbatim>\<open>KeyError\<close>, which is neither.
\<close>

theorem handler_error_surfaces_counterexample:
  "prepare_channel (ConsumeMessage ''q1'') (raising (OtherError ''KeyError''))
     (world0\<lparr>signals := [Deliver (delivery_of (JsonText (JObj [(''x'', JNum 1)])))]\<rparr>) =
     (Raised (OtherError ''KeyError''),
      world0\<lparr>attempts := 2,
        trace :=
          [Connect True, QueueDeclare ''q1'', BasicConsume ''q1'', StartConsuming,
           CallWrapped, Connect True, QueueDeclare ''logging'', JsonDumps,
           BasicPublish [] ''logging''
             (JsonText (JObj [(''channel'', JStr ''<BlockingChannel>''),
                              (''method'', JStr ''<Basic.Deliver>''),
                              (''properties'', JStr ''<BasicProperties>''),
                              (''body'', JObj [(''x'', JNum 1)])])),
           CallConsumer (PDict [(KStr ''x'', PInt 1)])]\<rparr>) \<and>
   \<not> is_connection_error (OtherError ''KeyError'') \<and>
   \<not> is_serialization_error (OtherError ''KeyError'')"
  by (simp add: prepare_channel_def retry_def max_attempts_def eval_nat_numeral
      consume_attempt_def consume_setup_def consume_listen_def start_consuming_def
      message_handler_def publish_wrapper_def publish_attempt_def send_log_def
      andthen_def ret_def create_connection_and_channel_def connect_def queue_declare_def
      basic_consume_def basic_publish_def dumps_def decode_bytes_def decode_utf8_def call_wrapped_def
      call_consumer_def emit_def ConsumeMessage_def PublishMessage_def delivery_of_def
      raising_def world0_def up_from_def)


end
